theory Spec2Isabelle
  imports Main "HOL-Library.Sublist"
begin

section \<open>Python values, dictionaries and exceptions\<close>

text \<open>
  The program of \<^verbatim>\<open>ephemeris/shed_tools.py\<close> works on dictionaries loaded from YAML or
  returned by the Galaxy API. A value is \<^verbatim>\<open>None\<close>, a string or a list; a dictionary maps
  string keys to values. An exception of the source is a value of type \<open>error\<close>;
  whatever can raise returns \<open>error + 'a\<close>, with \<open>Inl\<close> for the exception.
\<close>

datatype pyval = PNone | PStr string | PList "pyval list"

type_synonym pydict = "string \<rightharpoonup> pyval"

text \<open>bioblend's \<^verbatim>\<open>ConnectionError(message, body=None, status_code=None)\<close>.\<close>

record conn_error =
  message :: string
  body :: "string option"

text \<open>
  What a \<^verbatim>\<open>KeyError\<close> and a \<^verbatim>\<open>ValueError\<close> of this program are raised for: a missing
  dictionary key, the explicit \<^verbatim>\<open>raise KeyError\<close> of \<open>complete_repo_information\<close> (with
  the tool's name), the explicit \<^verbatim>\<open>raise ValueError\<close> of \<open>install_tools\<close>, and the
  \<^verbatim>\<open>ValueError\<close> of \<^verbatim>\<open>collections.namedtuple\<close> for a field name that is no identifier.
\<close>

datatype key_error = Missing_key string | Panel_section_undefined pyval

datatype value_error = Empty_tool_list | Invalid_field_name string

datatype error =
    ValueError value_error
  | KeyError key_error
  | NameError string
  | TypeError
  | AttributeError
  | ConnectionError conn_error

text \<open>\<^verbatim>\<open>d.get(k)\<close>, \<^verbatim>\<open>d.get(k, default)\<close> and \<^verbatim>\<open>d[k]\<close>.\<close>

definition py_get :: "pydict \<Rightarrow> string \<Rightarrow> pyval" where
  "py_get d k = (case d k of None \<Rightarrow> PNone | Some v \<Rightarrow> v)"

definition py_get_default :: "pydict \<Rightarrow> string \<Rightarrow> pyval \<Rightarrow> pyval" where
  "py_get_default d k dflt = (case d k of None \<Rightarrow> dflt | Some v \<Rightarrow> v)"

definition py_getitem :: "pydict \<Rightarrow> string \<Rightarrow> error + pyval" where
  "py_getitem d k = (case d k of None \<Rightarrow> Inl (KeyError (Missing_key k)) | Some v \<Rightarrow> Inr v)"

text \<open>
  \<^verbatim>\<open>x in c\<close>: a substring test when \<open>c\<close> is a string (a \<^verbatim>\<open>TypeError\<close> unless \<open>x\<close> is a
  string too), membership when \<open>c\<close> is a list, a \<^verbatim>\<open>TypeError\<close> when \<open>c\<close> is \<^verbatim>\<open>None\<close>.
\<close>

fun py_in :: "pyval \<Rightarrow> pyval \<Rightarrow> error + bool" where
  "py_in (PStr t) (PStr s) = Inr (sublist t s)"
| "py_in x (PStr s) = Inl TypeError"
| "py_in x (PList l) = Inr (x \<in> set l)"
| "py_in x PNone = Inl TypeError"

section \<open>Repository identity\<close>

definition the_same_repository :: "pydict \<Rightarrow> pydict \<Rightarrow> error + bool" where
  "the_same_repository repo_1_info repo_2_info =
     (if py_get repo_1_info ''changeset_revision'' = py_get repo_2_info ''changeset_revision'' then
        if py_get repo_1_info ''name'' = py_get repo_2_info ''name'' then
          if py_get repo_1_info ''owner'' = py_get repo_2_info ''owner'' then
            (let t1ts = py_get_default repo_1_info ''tool_shed''
                          (py_get_default repo_1_info ''tool_shed_url'' PNone);
                 t2ts = py_get_default repo_2_info ''tool_shed''
                          (py_get_default repo_2_info ''tool_shed_url'' PNone)
             in case py_in t1ts t2ts of
                  Inl e \<Rightarrow> Inl e
                | Inr True \<Rightarrow> Inr True
                | Inr False \<Rightarrow>
                    (case py_in t2ts t1ts of
                       Inl e \<Rightarrow> Inl e
                     | Inr True \<Rightarrow> Inr True
                     | Inr False \<Rightarrow> Inr False))
          else Inr False
        else Inr False
      else Inr False)"

text \<open>
  The registry URL a record carries, as \<open>the_same_repository\<close> reads it: the entry
  \<^verbatim>\<open>tool_shed\<close>, else the entry \<^verbatim>\<open>tool_shed_url\<close>, else \<^verbatim>\<open>None\<close>.
\<close>

definition tool_shed_of :: "pydict \<Rightarrow> pyval" where
  "tool_shed_of d = py_get_default d ''tool_shed'' (py_get_default d ''tool_shed_url'' PNone)"

text \<open>
  In a repository record the registry URL is a string when it is there at all
  (the data model has no list-valued URL).
\<close>

definition url_scalar :: "pydict \<Rightarrow> bool" where
  "url_scalar d = (case tool_shed_of d of PList l \<Rightarrow> False | _ \<Rightarrow> True)"

section \<open>Flattening the revisions\<close>

text \<open>
  \<open>_flatten_repo_info\<close> changes the dictionaries of its argument in place and appends the
  same dictionary object once per revision. Dictionaries therefore live in a heap, and
  a list of dictionaries is a list of references.
\<close>

type_synonym ref = nat

type_synonym heap = "ref \<Rightarrow> pydict"

text \<open>A list of freshly created dictionaries: object \<open>i\<close> is the \<open>i\<close>-th of the list.\<close>

definition heap_of :: "pydict list \<Rightarrow> heap" where
  "heap_of ds = (\<lambda>i. if i < length ds then ds ! i else Map.empty)"

text \<open>\<^verbatim>\<open>for x in v\<close>: the elements of a list, the characters of a string.\<close>

fun py_iter :: "pyval \<Rightarrow> error + pyval list" where
  "py_iter (PList l) = Inr l"
| "py_iter (PStr s) = Inr (map (\<lambda>c. PStr [c]) s)"
| "py_iter PNone = Inl TypeError"

text \<open>The inner loop \<^verbatim>\<open>for revision in revisions\<close>.\<close>

fun flatten_revisions :: "ref \<Rightarrow> pyval list \<Rightarrow> heap \<times> ref list \<Rightarrow> heap \<times> ref list" where
  "flatten_revisions repo_info [] (h, flattened_list) = (h, flattened_list)"
| "flatten_revisions repo_info (revision # revisions) (h, flattened_list) =
     flatten_revisions repo_info revisions
       (h(repo_info := (h repo_info)(''changeset_revision'' \<mapsto> revision)),
        flattened_list @ [repo_info])"

text \<open>The outer loop \<^verbatim>\<open>for repo_info in repositories\<close>.\<close>

fun flatten_loop :: "ref list \<Rightarrow> heap \<times> ref list \<Rightarrow> error + heap \<times> ref list" where
  "flatten_loop [] (h, flattened_list) = Inr (h, flattened_list)"
| "flatten_loop (repo_info # repositories) (h, flattened_list) =
     (if h repo_info ''revisions'' \<noteq> None then
        (let revisions = py_get_default (h repo_info) ''revisions'' (PList []);
             h1 = h(repo_info := (h repo_info)(''revisions'' := None))
         in case py_iter revisions of
              Inl e \<Rightarrow> Inl e
            | Inr revs \<Rightarrow>
                flatten_loop repositories (flatten_revisions repo_info revs (h1, flattened_list)))
      else flatten_loop repositories (h, flattened_list @ [repo_info]))"

definition flatten_repo_info :: "heap \<Rightarrow> ref list \<Rightarrow> error + heap \<times> ref list" where
  "flatten_repo_info h repositories = flatten_loop repositories (h, [])"

section \<open>Completing a repository record\<close>

definition format_tool_shed_url :: "pyval \<Rightarrow> error + pyval" where
  "format_tool_shed_url tool_shed_url =
     (case tool_shed_url of
        PStr s \<Rightarrow>
          (let s1 = (if \<not> suffix ''/'' s then s @ ''/'' else s);
               s2 = (if \<not> prefix ''http'' s1 then ''https://'' @ s1 else s1)
           in Inr (PStr s2))
      | _ \<Rightarrow> Inl AttributeError)"

definition complete_repo_information :: "pydict \<Rightarrow> pyval \<Rightarrow> bool \<Rightarrow> error + pydict" where
  "complete_repo_information tool default_toolshed_url require_tool_panel_info =
     (case py_getitem tool ''name'' of
        Inl e \<Rightarrow> Inl e
      | Inr name \<Rightarrow>
     (case py_getitem tool ''owner'' of
        Inl e \<Rightarrow> Inl e
      | Inr owner \<Rightarrow>
     (let repo = [''name'' \<mapsto> name, ''owner'' \<mapsto> owner,
                  ''tool_panel_section_id'' \<mapsto> py_get tool ''tool_panel_section_id'',
                  ''tool_panel_section_label'' \<mapsto> py_get tool ''tool_panel_section_label''];
          missing =
            (if require_tool_panel_info \<and> py_get repo ''tool_panel_section_id'' = PNone
                  \<and> py_get repo ''tool_panel_section_label'' = PNone
             then (case py_in (PStr ''data_manager'') (py_get repo ''name'') of
                     Inl e \<Rightarrow> Inl e
                   | Inr b \<Rightarrow> Inr (\<not> b))
             else Inr False)
      in case missing of
           Inl e \<Rightarrow> Inl e
         | Inr True \<Rightarrow> Inl (KeyError (Panel_section_undefined (py_get repo ''name'')))
         | Inr False \<Rightarrow>
             (case format_tool_shed_url (py_get_default tool ''tool_shed_url'' default_toolshed_url) of
                Inl e \<Rightarrow> Inl e
              | Inr url \<Rightarrow>
                  Inr (repo(''tool_shed_url'' \<mapsto> url,
                            ''changeset_revision'' \<mapsto>
                               py_get_default tool ''changeset_revision'' PNone))))))"

section \<open>The collaborators: registry, host inventory, host install client\<close>

text \<open>
  The Tool Shed and the Galaxy host are reached through bioblend and through
  \<^verbatim>\<open>GiToToolYaml\<close>, which are not part of this module. They are parameters of the model:
  \<^item> \<open>installed_tools k\<close> is what the \<open>k\<close>-th read of the property \<^verbatim>\<open>installed_tools\<close>
    returns (a list of fresh dictionaries);
  \<^item> \<open>get_ordered_installable_revisions url name owner\<close> is the registry's answer;
  \<^item> \<open>shed_install calls kwargs\<close> is the outcome of
    \<^verbatim>\<open>tool_shed_client.install_repository_revision(**kwargs)\<close> after the install calls
    \<open>calls\<close> were issued before it: a response, or an exception;
  \<^item> \<open>get_repositories k\<close> is the outcome of the \<open>k\<close>-th call of
    \<^verbatim>\<open>tool_shed_client.get_repositories()\<close>, with the time in microseconds that the call
    takes beyond the first microsecond.
\<close>

datatype response = RDict pydict | RValue pyval

record env =
  installed_tools :: "nat \<Rightarrow> pydict list"
  get_ordered_installable_revisions :: "pyval \<Rightarrow> pyval \<Rightarrow> pyval \<Rightarrow> error + pyval list"
  shed_install :: "pydict list \<Rightarrow> pydict \<Rightarrow> error + response"
  get_repositories :: "nat \<Rightarrow> nat \<times> (error + pydict list)"

section \<open>Resolving the revision\<close>

definition get_changeset_revisions :: "env \<Rightarrow> pydict \<Rightarrow> bool \<Rightarrow> error + pydict option" where
  "get_changeset_revisions ev repository force_latest_revision =
     (if py_get repository ''changeset_revision'' = PNone \<or> force_latest_revision then
        (case py_getitem repository ''tool_shed_url'' of
           Inl e \<Rightarrow> Inl e
         | Inr url \<Rightarrow>
        (case py_getitem repository ''name'' of
           Inl e \<Rightarrow> Inl e
         | Inr name \<Rightarrow>
        (case py_getitem repository ''owner'' of
           Inl e \<Rightarrow> Inl e
         | Inr owner \<Rightarrow>
        (case get_ordered_installable_revisions ev url name owner of
           Inl e \<Rightarrow> Inl e
         | Inr installable_revisions \<Rightarrow>
             if installable_revisions = [] then Inr None
             else Inr (Some (repository(''changeset_revision'' \<mapsto> last installable_revisions)))))))
      else Inr (Some repository))"

section \<open>Log records\<close>

text \<open>
  The dictionaries that the logging functions return are written as association lists,
  in the order of the dictionary display, which is the order in which the keys are
  iterated. A logger is either given (\<open>log = True\<close>) or
  \<^verbatim>\<open>None\<close>; \<^verbatim>\<open>log.debug\<close> and \<^verbatim>\<open>log.info\<close> on \<^verbatim>\<open>None\<close> raise \<^verbatim>\<open>AttributeError\<close>.
\<close>

fun py_getitems :: "pydict \<Rightarrow> string list \<Rightarrow> error + pyval list" where
  "py_getitems d [] = Inr []"
| "py_getitems d (k # ks) =
     (case py_getitem d k of
        Inl e \<Rightarrow> Inl e
      | Inr v \<Rightarrow> (case py_getitems d ks of Inl e \<Rightarrow> Inl e | Inr vs \<Rightarrow> Inr (v # vs)))"

text \<open>
  \<open>log_repository_install_error\<close> reads the dictionary with \<^verbatim>\<open>get\<close> only and logs under
  \<^verbatim>\<open>if log\<close>, so it cannot raise; its time stamp and its logger are left out.
\<close>

definition log_repository_install_error :: "pydict \<Rightarrow> pyval \<Rightarrow> (string \<times> pyval) list" where
  "log_repository_install_error repository msg =
     [(''name'', py_get_default repository ''name'' (PStr [])),
      (''owner'', py_get_default repository ''owner'' (PStr [])),
      (''revision'', py_get_default repository ''changeset_revision'' (PStr [])),
      (''error'', msg)]"

definition log_repository_install_success :: "pydict \<Rightarrow> bool \<Rightarrow> error + (string \<times> pyval) list" where
  "log_repository_install_success repository log =
     (case (if log then py_getitems repository [''name'', ''changeset_revision''] else Inr []) of
        Inl e \<Rightarrow> Inl e
      | Inr logged \<Rightarrow>
          (case py_getitems repository [''name'', ''owner'', ''changeset_revision''] of
             Inl e \<Rightarrow> Inl e
           | Inr vs \<Rightarrow> Inr (zip [''name'', ''owner'', ''revision''] vs)))"

definition log_repository_install_skip :: "pydict \<Rightarrow> bool \<Rightarrow> error + (string \<times> pyval) list" where
  "log_repository_install_skip repository log =
     (case (if log then py_getitems repository [''name'', ''changeset_revision''] else Inr []) of
        Inl e \<Rightarrow> Inl e
      | Inr logged \<Rightarrow>
          (case py_getitems repository [''name'', ''owner'', ''changeset_revision''] of
             Inl e \<Rightarrow> Inl e
           | Inr vs \<Rightarrow> Inr (zip [''name'', ''owner'', ''changeset_revision''] vs)))"

text \<open>Truth value of \<open>a\<close> in \<^verbatim>\<open>a or b\<close>.\<close>

fun py_truthy :: "pyval \<Rightarrow> bool" where
  "py_truthy PNone = False"
| "py_truthy (PStr s) = (s \<noteq> [])"
| "py_truthy (PList l) = (l \<noteq> [])"

definition log_repository_install_start :: "pydict \<Rightarrow> bool \<Rightarrow> error + unit" where
  "log_repository_install_start repository log =
     (if \<not> log then Inl AttributeError
      else case py_getitems repository [''name'', ''owner'', ''tool_panel_section_id''] of
             Inl e \<Rightarrow> Inl e
           | Inr vs \<Rightarrow>
               (case py_getitems repository
                       ((if py_truthy (last vs) then [] else [''tool_panel_section_label''])
                          @ [''changeset_revision'']) of
                  Inl e \<Rightarrow> Inl e
                | Inr ws \<Rightarrow> Inr ()))"

text \<open>\<^verbatim>\<open>log.debug(fmt % (repository[k1], ...))\<close> in the body of \<open>install_tools\<close>.\<close>

definition log_debug :: "bool \<Rightarrow> pydict \<Rightarrow> string list \<Rightarrow> error + unit" where
  "log_debug log repository ks =
     (if \<not> log then Inl AttributeError
      else case py_getitems repository ks of Inl e \<Rightarrow> Inl e | Inr vs \<Rightarrow> Inr ())"

text \<open>\<^verbatim>\<open>lst += d\<close> for a list and a dictionary: the list is extended by the keys of \<open>d\<close>.\<close>

definition py_iadd :: "pyval list \<Rightarrow> (string \<times> pyval) list \<Rightarrow> pyval list" where
  "py_iadd lst d = lst @ map (\<lambda>kv. PStr (fst kv)) d"

section \<open>Normalising one unit\<close>

text \<open>
  The nested function of \<open>install_tools\<close>. Its free variable \<^verbatim>\<open>start\<close> is a variable of
  \<open>install_tools\<close> that is assigned only inside the install loop: \<open>start = None\<close> is the
  unbound variable, and reading it raises \<^verbatim>\<open>NameError\<close>. With \<^verbatim>\<open>start\<close> bound, the
  handler builds the error record, drops it and returns \<^verbatim>\<open>None\<close> (\<^verbatim>\<open>e.message\<close> is the
  Python 2 attribute of the exception).
\<close>

definition set_defaults_in_repo_information ::
  "env \<Rightarrow> bool \<Rightarrow> pyval \<Rightarrow> nat option \<Rightarrow> pydict \<Rightarrow> error + pydict option" where
  "set_defaults_in_repo_information ev force_latest_revision default_toolshed start repository =
     (case complete_repo_information repository default_toolshed True of
        Inl (KeyError e) \<Rightarrow>
          (case start of
             None \<Rightarrow> Inl (NameError ''start'')
           | Some t \<Rightarrow> Inr None)
      | Inl e \<Rightarrow> Inl e
      | Inr complete_repo \<Rightarrow>
          (case get_changeset_revisions ev complete_repo force_latest_revision of
             Inl e \<Rightarrow> Inl e
           | Inr None \<Rightarrow> Inr None
           | Inr (Some repo_with_revision) \<Rightarrow> Inr (Some repo_with_revision)))"

text \<open>A list comprehension \<^verbatim>\<open>[f(x) for x in xs]\<close> whose \<open>f\<close> can raise.\<close>

fun comprehension :: "('a \<Rightarrow> error + 'b) \<Rightarrow> 'a list \<Rightarrow> error + 'b list" where
  "comprehension f [] = Inr []"
| "comprehension f (x # xs) =
     (case f x of
        Inl e \<Rightarrow> Inl e
      | Inr y \<Rightarrow> (case comprehension f xs of Inl e \<Rightarrow> Inl e | Inr ys \<Rightarrow> Inr (y # ys)))"

text \<open>\<^verbatim>\<open>[repo for repo in repository_list_with_none if repo is not None]\<close>\<close>

fun not_none :: "'a option list \<Rightarrow> 'a list" where
  "not_none [] = []"
| "not_none (None # xs) = not_none xs"
| "not_none (Some x # xs) = x # not_none xs"

definition resolve_repositories ::
  "env \<Rightarrow> bool \<Rightarrow> pyval \<Rightarrow> pydict list \<Rightarrow> error + pydict list" where
  "resolve_repositories ev force_latest_revision default_toolshed flattened_repos =
     (case comprehension
             (set_defaults_in_repo_information ev force_latest_revision default_toolshed None)
             flattened_repos of
        Inl e \<Rightarrow> Inl e
      | Inr repository_list_with_none \<Rightarrow> Inr (not_none repository_list_with_none))"

section \<open>Filtering against the host inventory\<close>

text \<open>
  The property \<^verbatim>\<open>installed_repos\<close> flattens what \<^verbatim>\<open>installed_tools\<close> returns; the
  inventory is asked with \<^verbatim>\<open>flatten_revisions=False\<close>, so its entries carry
  \<^verbatim>\<open>revisions\<close> lists.
\<close>

definition installed_repos :: "pydict list \<Rightarrow> error + pydict list" where
  "installed_repos tools =
     (case flatten_repo_info (heap_of tools) [0..<length tools] of
        Inl e \<Rightarrow> Inl e
      | Inr (h, flattened_list) \<Rightarrow> Inr (map h flattened_list))"

text \<open>
  \<^verbatim>\<open>collections.namedtuple(typename, field_names)\<close> for a list of field names. The type
  name and every field name must be made of letters, digits and underscores and must
  not start with a digit; then, name by name, a field name must not start with an
  underscore and must not have occurred before. The first offending name is reported.
  (The test for keywords is left out: no name here is one.)
\<close>

definition isidentifier :: "string \<Rightarrow> bool" where
  "isidentifier s =
     (s \<noteq> []
      \<and> list_all (\<lambda>c. c \<in> set ''abcdefghijklmnopqrstuvwxyzABCDEFGHIJKLMNOPQRSTUVWXYZ0123456789_'') s
      \<and> hd s \<notin> set ''0123456789'')"

fun check_field_names :: "string list \<Rightarrow> string list \<Rightarrow> string option" where
  "check_field_names seen [] = None"
| "check_field_names seen (n # ns) =
     (if prefix ''_'' n \<or> n \<in> set seen then Some n else check_field_names (n # seen) ns)"

definition namedtuple :: "string \<Rightarrow> string list \<Rightarrow> error + string list" where
  "namedtuple typename field_names =
     (case filter (\<lambda>n. \<not> isidentifier n) (typename # field_names) of
        n # ns \<Rightarrow> Inl (ValueError (Invalid_field_name n))
      | [] \<Rightarrow>
          (case check_field_names [] field_names of
             Some n \<Rightarrow> Inl (ValueError (Invalid_field_name n))
           | None \<Rightarrow> Inr field_names))"

text \<open>The inner loop \<^verbatim>\<open>for installed_tool in self.installed_repos\<close> for one \<open>repo\<close>.\<close>

fun filter_one ::
  "pydict list \<Rightarrow> heap \<Rightarrow> ref \<Rightarrow> ref list \<times> ref list \<Rightarrow> error + ref list \<times> ref list" where
  "filter_one [] h repo (not_installed_repos, already_installed_repos) =
     Inr (not_installed_repos, already_installed_repos)"
| "filter_one (installed_tool # rest) h repo (not_installed_repos, already_installed_repos) =
     (case the_same_repository installed_tool (h repo) of
        Inl e \<Rightarrow> Inl e
      | Inr True \<Rightarrow>
          filter_one rest h repo (not_installed_repos, already_installed_repos @ [repo])
      | Inr False \<Rightarrow>
          filter_one rest h repo (not_installed_repos @ [repo], already_installed_repos))"

text \<open>The outer loop \<^verbatim>\<open>for repo in repos\<close>; the property is read anew for every \<open>repo\<close>,
  the \<open>k\<close>-th read for the \<open>k\<close>-th of them.\<close>

fun filter_loop ::
  "env \<Rightarrow> nat \<Rightarrow> heap \<Rightarrow> ref list \<Rightarrow> ref list \<times> ref list \<Rightarrow> error + ref list \<times> ref list" where
  "filter_loop ev k h [] acc = Inr acc"
| "filter_loop ev k h (repo # repos) acc =
     (case installed_repos (installed_tools ev k) of
        Inl e \<Rightarrow> Inl e
      | Inr inventory \<Rightarrow>
          (case filter_one inventory h repo acc of
             Inl e \<Rightarrow> Inl e
           | Inr acc' \<Rightarrow> filter_loop ev (Suc k) h repos acc'))"

text \<open>The result is the pair \<open>(not_installed_repos, already_installed_repos)\<close>.\<close>

definition filter_installed_repos ::
  "env \<Rightarrow> heap \<Rightarrow> ref list \<Rightarrow> error + ref list \<times> ref list" where
  "filter_installed_repos ev h repos =
     (case filter_loop ev 0 h repos ([], []) of
        Inl e \<Rightarrow> Inl e
      | Inr (not_installed_repos, already_installed_repos) \<Rightarrow>
          (case namedtuple ''FilterResults'' [''not_installed_repos'', ''already_installed_repos''] of
             Inl e \<Rightarrow> Inl e
           | Inr names \<Rightarrow> Inr (not_installed_repos, already_installed_repos)))"

section \<open>The state of a run\<close>

text \<open>
  The local variables of \<open>install_tools\<close> (the three report lists and the counter), the
  heap of the repository dictionaries, the keyword arguments of the install calls issued
  so far, and the number of \<^verbatim>\<open>get_repositories\<close> calls issued so far.
\<close>

record run_state =
  installed_repositories :: "pyval list"
  skipped_repositories :: "pyval list"
  errored_repositories :: "pyval list"
  counter :: nat
  objects :: heap
  install_calls :: "pydict list"
  polls :: nat

section \<open>Installing one repository\<close>

definition install_repository_revision ::
  "env \<Rightarrow> ref \<Rightarrow> bool \<Rightarrow> run_state \<Rightarrow> (error + response) \<times> run_state" where
  "install_repository_revision ev repository log st =
     (case objects st repository ''tool_panel_section_label'' of
        None \<Rightarrow> (Inl (KeyError (Missing_key ''tool_panel_section_label'')), st)
      | Some label \<Rightarrow>
          (let kwargs = (objects st repository)
                          (''tool_panel_section_label'' := None,
                           ''new_tool_panel_section_label'' \<mapsto> label);
               st1 = st\<lparr>objects := (objects st)(repository := kwargs),
                        install_calls := install_calls st @ [kwargs]\<rparr>
           in case shed_install ev (install_calls st) kwargs of
                Inl e \<Rightarrow> (Inl e, st1)
              | Inr (RDict r) \<Rightarrow>
                  (if py_get_default r ''status'' PNone = PStr ''ok'' \<and> log then
                     (case py_getitem kwargs ''name'' of
                        Inl e \<Rightarrow> (Inl e, st1)
                      | Inr name \<Rightarrow> (Inr (RDict r), st1))
                   else (Inr (RDict r), st1))
              | Inr response \<Rightarrow> (Inr response, st1)))"

section \<open>Waiting for an install that timed out\<close>

text \<open>
  The loop \<^verbatim>\<open>for installing_repo in installed_repo_list\<close>: \<open>Some True\<close> and \<open>Some False\<close>
  are the two \<^verbatim>\<open>return\<close>s, \<open>None\<close> is the end of the list; the number counts the calls of
  \<^verbatim>\<open>time.sleep(10)\<close>.
\<close>

fun scan_repositories :: "pydict \<Rightarrow> pydict list \<Rightarrow> nat \<Rightarrow> error + bool option \<times> nat" where
  "scan_repositories repository [] sleeps = Inr (None, sleeps)"
| "scan_repositories repository (installing_repo # rest) sleeps =
     (case py_getitem repository ''name'' of
        Inl e \<Rightarrow> Inl e
      | Inr name \<Rightarrow>
     (case py_getitem installing_repo ''name'' of
        Inl e \<Rightarrow> Inl e
      | Inr installing_name \<Rightarrow>
          if name = installing_name then
            (case py_getitem installing_repo ''owner'' of
               Inl e \<Rightarrow> Inl e
             | Inr installing_owner \<Rightarrow>
            (case py_getitem repository ''owner'' of
               Inl e \<Rightarrow> Inl e
             | Inr owner \<Rightarrow>
                 if installing_owner = owner then
                   (case py_getitem installing_repo ''status'' of
                      Inl e \<Rightarrow> Inl e
                    | Inr status \<Rightarrow>
                        if status = PStr ''Installed'' then Inr (Some True, sleeps)
                        else if status = PStr ''Error'' then Inr (Some False, sleeps)
                        else scan_repositories repository rest (Suc sleeps))
                 else scan_repositories repository rest sleeps))
          else scan_repositories repository rest sleeps))"

text \<open>
  The \<^verbatim>\<open>while\<close> loop. Time is counted in microseconds, the resolution of
  \<^verbatim>\<open>datetime.now()\<close>: \<open>elapsed\<close> is \<^verbatim>\<open>now() - start\<close> at the test of the loop, a call of
  \<^verbatim>\<open>get_repositories\<close> takes one microsecond and the time the collaborator adds, and
  \<^verbatim>\<open>time.sleep(10)\<close> takes ten seconds. The result is paired with the number of
  \<^verbatim>\<open>get_repositories\<close> calls issued. The logger of \<open>wait_for_install\<close> is used for one
  warning only, under \<^verbatim>\<open>if log\<close>, and is left out.
\<close>

function wait_loop :: "env \<Rightarrow> pydict \<Rightarrow> nat \<Rightarrow> nat \<Rightarrow> nat \<Rightarrow> (error + bool) \<times> nat" where
  "wait_loop ev repository timeout elapsed k =
     (if elapsed < timeout * 1000000 then
        (case get_repositories ev k of
           (duration, Inl (ConnectionError e)) \<Rightarrow>
             wait_loop ev repository timeout (elapsed + Suc duration + 10000000) (Suc k)
         | (duration, Inl e) \<Rightarrow> (Inl e, Suc k)
         | (duration, Inr installed_repo_list) \<Rightarrow>
             (case scan_repositories repository installed_repo_list 0 of
                Inl e \<Rightarrow> (Inl e, Suc k)
              | Inr (Some success, sleeps) \<Rightarrow> (Inr success, Suc k)
              | Inr (None, sleeps) \<Rightarrow>
                  wait_loop ev repository timeout
                    (elapsed + Suc duration + sleeps * 10000000) (Suc k)))
      else (Inr False, k))"
  by pat_completeness auto
termination
  by (relation "measure (\<lambda>(ev, repository, timeout, elapsed, k). timeout * 1000000 - elapsed)")
     auto

declare wait_loop.simps [simp del]

definition wait_for_install :: "env \<Rightarrow> pydict \<Rightarrow> nat \<Rightarrow> nat \<Rightarrow> (error + bool) \<times> nat" where
  "wait_for_install ev repository timeout k = wait_loop ev repository timeout 0 k"

section \<open>The install driver\<close>

definition default_err_msg :: string where
  "default_err_msg =
     ''All repositories that you are attempting to install have been previously installed.''"

text \<open>
  One pass through the body of the loop \<^verbatim>\<open>for repository in not_installed_repos\<close>.
  \<open>install_tools\<close> calls \<open>install_repository_revision\<close> without a logger. Only a
  \<^verbatim>\<open>ConnectionError\<close> is handled; every other exception ends the run.
\<close>

definition install_one :: "env \<Rightarrow> bool \<Rightarrow> ref \<Rightarrow> run_state \<Rightarrow> error + run_state" where
  "install_one ev log repository st0 =
     (let st = st0\<lparr>counter := counter st0 + 1\<rparr>
      in case log_repository_install_start (objects st repository) log of
           Inl x \<Rightarrow> Inl x
         | Inr u \<Rightarrow>
        (case install_repository_revision ev repository False st of
           (Inr response, st1) \<Rightarrow>
             (case log_repository_install_success (objects st1 repository) log of
                Inl x \<Rightarrow> Inl x
              | Inr d \<Rightarrow>
                  Inr (st1\<lparr>installed_repositories := py_iadd (installed_repositories st1) d\<rparr>))
         | (Inl (ConnectionError e), st1) \<Rightarrow>
             (case body e of
                None \<Rightarrow> Inl TypeError
              | Some b \<Rightarrow>
                  if sublist default_err_msg b then
                    (case log_debug log (objects st1 repository) [''name'', ''changeset_revision''] of
                       Inl x \<Rightarrow> Inl x
                     | Inr u \<Rightarrow> Inr st1)
                  else if sublist ''504'' (message e) then
                    (case log_debug log (objects st1 repository) [''name''] of
                       Inl x \<Rightarrow> Inl x
                     | Inr u \<Rightarrow>
                    (case wait_for_install ev (objects st1 repository) 3600 (polls st1) of
                       (Inl x, k) \<Rightarrow> Inl x
                     | (Inr True, k) \<Rightarrow>
                         (case log_repository_install_success (objects st1 repository) log of
                            Inl x \<Rightarrow> Inl x
                          | Inr d \<Rightarrow>
                              Inr (st1\<lparr>polls := k,
                                       installed_repositories :=
                                         py_iadd (installed_repositories st1) d\<rparr>))
                     | (Inr False, k) \<Rightarrow>
                         Inr (st1\<lparr>polls := k,
                                  errored_repositories :=
                                    py_iadd (errored_repositories st1)
                                      (log_repository_install_error (objects st1 repository)
                                         (PStr b))\<rparr>)))
                  else
                    Inr (st1\<lparr>errored_repositories :=
                               py_iadd (errored_repositories st1)
                                 (log_repository_install_error (objects st1 repository)
                                    (PStr b))\<rparr>))
         | (Inl x, st1) \<Rightarrow> Inl x))"

fun install_loop :: "env \<Rightarrow> bool \<Rightarrow> ref list \<Rightarrow> run_state \<Rightarrow> error + run_state" where
  "install_loop ev log [] st = Inr st"
| "install_loop ev log (repository # not_installed_repos) st =
     (case install_one ev log repository st of
        Inl x \<Rightarrow> Inl x
      | Inr st1 \<Rightarrow> install_loop ev log not_installed_repos st1)"

text \<open>The loop \<^verbatim>\<open>for skipped_repo in already_installed_repos\<close>.\<close>

fun skip_loop :: "bool \<Rightarrow> ref list \<Rightarrow> run_state \<Rightarrow> error + run_state" where
  "skip_loop log [] st = Inr st"
| "skip_loop log (skipped_repo # already_installed_repos) st =
     (let st1 = st\<lparr>counter := counter st + 1\<rparr>
      in case log_repository_install_skip (objects st1 skipped_repo) log of
           Inl x \<Rightarrow> Inl x
         | Inr d \<Rightarrow>
             skip_loop log already_installed_repos
               (st1\<lparr>skipped_repositories := py_iadd (skipped_repositories st1) d\<rparr>))"

text \<open>
  From the filter to the end of the install loop. The dictionaries of
  \<open>repository_list\<close> were created one by one by \<open>complete_repo_information\<close>, so they are
  distinct objects: object \<open>i\<close> of the heap is the \<open>i\<close>-th of them.
\<close>

definition install_phase :: "env \<Rightarrow> bool \<Rightarrow> pydict list \<Rightarrow> error + run_state" where
  "install_phase ev log repository_list =
     (let st0 = \<lparr>installed_repositories = [], skipped_repositories = [],
                 errored_repositories = [], counter = 0,
                 objects = heap_of repository_list, install_calls = [], polls = 0\<rparr>
      in case filter_installed_repos ev (objects st0) [0..<length repository_list] of
           Inl x \<Rightarrow> Inl x
         | Inr (not_installed_repos, already_installed_repos) \<Rightarrow>
             (case skip_loop log already_installed_repos st0 of
                Inl x \<Rightarrow> Inl x
              | Inr st1 \<Rightarrow> install_loop ev log not_installed_repos st1))"

text \<open>From the flattened units to the end of the install loop.\<close>

definition process_repositories ::
  "env \<Rightarrow> bool \<Rightarrow> bool \<Rightarrow> pyval \<Rightarrow> pydict list \<Rightarrow> error + run_state" where
  "process_repositories ev log force_latest_revision default_toolshed flattened_repos =
     (case resolve_repositories ev force_latest_revision default_toolshed flattened_repos of
        Inl x \<Rightarrow> Inl x
      | Inr repository_list \<Rightarrow> install_phase ev log repository_list)"

section \<open>The report\<close>

text \<open>\<^verbatim>\<open>t['name']\<close> for a value that is no dictionary.\<close>

fun py_subscript :: "pyval \<Rightarrow> string \<Rightarrow> error + pyval" where
  "py_subscript PNone k = Inl TypeError"
| "py_subscript (PStr s) k = Inl TypeError"
| "py_subscript (PList l) k = Inl TypeError"

text \<open>\<^verbatim>\<open>log.info(fmt.format(len(lst), [(t['name'], t.get(...)) for t in lst]))\<close>\<close>

definition log_info :: "bool \<Rightarrow> pyval list \<Rightarrow> error + unit" where
  "log_info log lst =
     (if \<not> log then Inl AttributeError
      else case comprehension (\<lambda>t. py_subscript t ''name'') lst of
             Inl x \<Rightarrow> Inl x
           | Inr names \<Rightarrow> Inr ())"

text \<open>
  The end of \<open>install_tools\<close>: three summaries, two more lines that read no variable of
  the run, and the result, a triple (installed, skipped, errored).
\<close>

definition report_phase ::
  "bool \<Rightarrow> run_state \<Rightarrow> error + pyval list \<times> pyval list \<times> pyval list" where
  "report_phase log st =
     (case log_info log (installed_repositories st) of
        Inl x \<Rightarrow> Inl x
      | Inr u \<Rightarrow>
     (case log_info log (skipped_repositories st) of
        Inl x \<Rightarrow> Inl x
      | Inr u \<Rightarrow>
     (case log_info log (errored_repositories st) of
        Inl x \<Rightarrow> Inl x
      | Inr u \<Rightarrow>
     (case namedtuple ''InstallResults''
             [''installed_repositories, errored_repositories, skipped_repositories''] of
        Inl x \<Rightarrow> Inl x
      | Inr names \<Rightarrow>
          Inr (installed_repositories st, skipped_repositories st, errored_repositories st)))))"

section \<open>install_tools\<close>

text \<open>
  \<open>h\<close> is the heap that holds the dictionaries of the desired list, \<open>tools\<close> the list of
  references. The three \<^verbatim>\<open>default_install_*\<close> parameters are not read by the body.
\<close>

definition install_tools ::
  "env \<Rightarrow> bool \<Rightarrow> bool \<Rightarrow> pyval \<Rightarrow> heap \<Rightarrow> ref list
     \<Rightarrow> error + pyval list \<times> pyval list \<times> pyval list" where
  "install_tools ev log force_latest_revision default_toolshed h tools =
     (if tools = [] then Inl (ValueError Empty_tool_list)
      else case flatten_repo_info h tools of
             Inl x \<Rightarrow> Inl x
           | Inr (h1, flattened_repos) \<Rightarrow>
               (case process_repositories ev log force_latest_revision default_toolshed
                       (map h1 flattened_repos) of
                  Inl x \<Rightarrow> Inl x
                | Inr st \<Rightarrow> report_phase log st))"

section \<open>What the polling decides\<close>

text \<open>
  The outcome of \<open>wait_for_install\<close> in the words of its documentation, for listings
  that are lists of entries with a name, an owner and a status. In one listing the
  first entry with the name and the owner of the unit whose status is \<^verbatim>\<open>Installed\<close> or
  \<^verbatim>\<open>Error\<close> decides: \<open>Some True\<close> for \<^verbatim>\<open>Installed\<close>, \<open>Some False\<close> for \<^verbatim>\<open>Error\<close>.
\<close>

fun first_decisive :: "pydict \<Rightarrow> pydict list \<Rightarrow> bool option" where
  "first_decisive repository [] = None"
| "first_decisive repository (entry # entries) =
     (if py_get entry ''name'' = py_get repository ''name''
         \<and> py_get entry ''owner'' = py_get repository ''owner''
      then (if py_get entry ''status'' = PStr ''Installed'' then Some True
            else if py_get entry ''status'' = PStr ''Error'' then Some False
            else first_decisive repository entries)
      else first_decisive repository entries)"

definition poll_verdict :: "pydict \<Rightarrow> error + pydict list \<Rightarrow> bool option" where
  "poll_verdict repository outcome =
     (case outcome of Inl e \<Rightarrow> None | Inr entries \<Rightarrow> first_decisive repository entries)"

text \<open>The entries of a listing that carry the name and the owner of the unit.\<close>

definition pending :: "pydict \<Rightarrow> pydict list \<Rightarrow> nat" where
  "pending repository entries =
     length (filter (\<lambda>entry. py_get entry ''name'' = py_get repository ''name''
                           \<and> py_get entry ''owner'' = py_get repository ''owner'') entries)"

text \<open>
  The time in microseconds from the begin of a poll that decides nothing to the begin of
  the next one: the call itself, and ten seconds of sleep for a failed call or for each
  listed entry of the unit.
\<close>

definition poll_cost :: "pydict \<Rightarrow> nat \<times> (error + pydict list) \<Rightarrow> nat" where
  "poll_cost repository p =
     Suc (fst p) + (case snd p of
                      Inl e \<Rightarrow> 10000000
                    | Inr entries \<Rightarrow> pending repository entries * 10000000)"

text \<open>The time from the begin of poll \<open>k\<close> to the begin of poll \<open>k + j\<close>.\<close>

fun poll_begin :: "env \<Rightarrow> pydict \<Rightarrow> nat \<Rightarrow> nat \<Rightarrow> nat" where
  "poll_begin ev repository k 0 = 0"
| "poll_begin ev repository k (Suc j) =
     poll_cost repository (get_repositories ev k) + poll_begin ev repository (Suc k) j"

text \<open>
  Polling from poll \<open>k\<close> on finds the unit installed: some poll that begins before the
  timeout (in seconds) is decided by an \<^verbatim>\<open>Installed\<close> entry, and no earlier poll is decided.
\<close>

definition found_installed :: "env \<Rightarrow> pydict \<Rightarrow> nat \<Rightarrow> nat \<Rightarrow> bool" where
  "found_installed ev repository timeout k =
     (\<exists>j. (\<forall>i<j. poll_verdict repository (snd (get_repositories ev (k + i))) = None)
          \<and> poll_begin ev repository k j < timeout * 1000000
          \<and> poll_verdict repository (snd (get_repositories ev (k + j))) = Some True)"

text \<open>
  A listing call that behaves as bioblend documents it: it raises a
  \<^verbatim>\<open>ConnectionError\<close>, or returns entries with a name, an owner and a status.
\<close>

definition entry_ok :: "pydict \<Rightarrow> bool" where
  "entry_ok entry =
     (entry ''name'' \<noteq> None \<and> entry ''owner'' \<noteq> None \<and> entry ''status'' \<noteq> None)"

definition listing_ok :: "error + pydict list \<Rightarrow> bool" where
  "listing_ok outcome =
     (case outcome of
        Inl (ConnectionError c) \<Rightarrow> True
      | Inl e \<Rightarrow> False
      | Inr entries \<Rightarrow> list_all entry_ok entries)"

section \<open>Example data\<close>

text \<open>A desired-package entry with two revisions, as the YAML tool list gives it.\<close>

definition spec_two_revisions :: pydict where
  "spec_two_revisions =
     [''name'' \<mapsto> PStr ''x'', ''owner'' \<mapsto> PStr ''o'',
      ''revisions'' \<mapsto> PList [PStr ''r1'', PStr ''r2'']]"

text \<open>A normalised unit, and inventory entries of the host.\<close>

definition unit_x :: pydict where
  "unit_x =
     [''name'' \<mapsto> PStr ''x'', ''owner'' \<mapsto> PStr ''o'',
      ''tool_panel_section_id'' \<mapsto> PStr ''s'', ''tool_panel_section_label'' \<mapsto> PNone,
      ''tool_shed_url'' \<mapsto> PStr ''https://ts.org/'', ''changeset_revision'' \<mapsto> PStr ''r1'']"

definition entry_x :: pydict where
  "entry_x =
     [''name'' \<mapsto> PStr ''x'', ''owner'' \<mapsto> PStr ''o'',
      ''tool_shed_url'' \<mapsto> PStr ''ts.org'', ''changeset_revision'' \<mapsto> PStr ''r1'']"

definition entry_y :: pydict where
  "entry_y =
     [''name'' \<mapsto> PStr ''y'', ''owner'' \<mapsto> PStr ''o'',
      ''tool_shed_url'' \<mapsto> PStr ''ts.org'', ''changeset_revision'' \<mapsto> PStr ''r1'']"

definition entry_no_url :: pydict where
  "entry_no_url =
     [''name'' \<mapsto> PStr ''x'', ''owner'' \<mapsto> PStr ''o'', ''changeset_revision'' \<mapsto> PStr ''r1'']"

text \<open>Inventory entries as the host lists them, with their \<^verbatim>\<open>revisions\<close>.\<close>

definition tool_x :: pydict where
  "tool_x =
     [''name'' \<mapsto> PStr ''x'', ''owner'' \<mapsto> PStr ''o'', ''tool_shed_url'' \<mapsto> PStr ''ts.org'',
      ''revisions'' \<mapsto> PList [PStr ''r1'']]"

definition tool_y :: pydict where
  "tool_y =
     [''name'' \<mapsto> PStr ''y'', ''owner'' \<mapsto> PStr ''o'', ''tool_shed_url'' \<mapsto> PStr ''ts.org'',
      ''revisions'' \<mapsto> PList [PStr ''r1'']]"

definition tool_z :: pydict where
  "tool_z =
     [''name'' \<mapsto> PStr ''z'', ''owner'' \<mapsto> PStr ''o'', ''tool_shed_url'' \<mapsto> PStr ''ts.org'',
      ''revisions'' \<mapsto> PList [PStr ''r1'']]"

text \<open>Desired-package entries that lack the name, and the panel section.\<close>

definition spec_no_name :: pydict where
  "spec_no_name = [''owner'' \<mapsto> PStr ''o'', ''tool_panel_section_id'' \<mapsto> PStr ''s'']"

definition spec_no_section :: pydict where
  "spec_no_section = [''name'' \<mapsto> PStr ''x'', ''owner'' \<mapsto> PStr ''o'']"

definition spec_good :: pydict where
  "spec_good =
     [''name'' \<mapsto> PStr ''x'', ''owner'' \<mapsto> PStr ''o'', ''tool_panel_section_id'' \<mapsto> PStr ''s'',
      ''changeset_revision'' \<mapsto> PStr ''r1'']"

text \<open>
  Hosts: one that installs everything, one that answers every install call with the
  duplicate-install error, one that answers with a gateway timeout and lists nothing;
  none has an inventory, and the registry knows no repository.
\<close>

definition ev_ok :: env where
  "ev_ok = \<lparr>installed_tools = (\<lambda>k. []),
            get_ordered_installable_revisions = (\<lambda>url name owner. Inr []),
            shed_install = (\<lambda>calls kwargs. Inr (RValue PNone)),
            get_repositories = (\<lambda>k. (0, Inr []))\<rparr>"

definition ev_duplicate :: env where
  "ev_duplicate =
     ev_ok\<lparr>shed_install :=
              (\<lambda>calls kwargs.
                 Inl (ConnectionError \<lparr>message = ''400'', body = Some default_err_msg\<rparr>))\<rparr>"

text \<open>The state of a run before the install loop, with \<open>unit_x\<close> as the only unit.\<close>

definition st_x :: run_state where
  "st_x = \<lparr>installed_repositories = [], skipped_repositories = [], errored_repositories = [],
           counter = 0, objects = heap_of [unit_x], install_calls = [], polls = 0\<rparr>"

text \<open>A desired-package entry without a revision.\<close>

definition spec_unresolved :: pydict where
  "spec_unresolved =
     [''name'' \<mapsto> PStr ''x'', ''owner'' \<mapsto> PStr ''o'', ''tool_panel_section_id'' \<mapsto> PStr ''s'']"

text \<open>
  Entries of the host's repository listing for the unit \<open>unit_x\<close>, and hosts that answer
  every install call with a gateway timeout: one lists the unit as installed, one lists
  an errored entry before an installed one, one sends the duplicate-install phrase in
  the body, one sends no body.
\<close>

definition listed_installed :: pydict where
  "listed_installed =
     [''name'' \<mapsto> PStr ''x'', ''owner'' \<mapsto> PStr ''o'', ''status'' \<mapsto> PStr ''Installed'']"

definition listed_error :: pydict where
  "listed_error =
     [''name'' \<mapsto> PStr ''x'', ''owner'' \<mapsto> PStr ''o'', ''status'' \<mapsto> PStr ''Error'']"

definition gateway_timeout :: conn_error where
  "gateway_timeout = \<lparr>message = ''504 Gateway Time-out'', body = Some ''timeout''\<rparr>"

definition ev_timeout_installed :: env where
  "ev_timeout_installed =
     ev_ok\<lparr>shed_install := (\<lambda>calls kwargs. Inl (ConnectionError gateway_timeout)),
            get_repositories := (\<lambda>k. (0, Inr [listed_installed]))\<rparr>"

definition ev_timeout_mixed :: env where
  "ev_timeout_mixed =
     ev_ok\<lparr>shed_install := (\<lambda>calls kwargs. Inl (ConnectionError gateway_timeout)),
            get_repositories := (\<lambda>k. (0, Inr [listed_error, listed_installed]))\<rparr>"

definition ev_timeout_duplicate :: env where
  "ev_timeout_duplicate =
     ev_timeout_installed\<lparr>shed_install :=
        (\<lambda>calls kwargs.
           Inl (ConnectionError \<lparr>message = ''504 Gateway Time-out'',
                                  body = Some default_err_msg\<rparr>))\<rparr>"

definition ev_timeout_no_body :: env where
  "ev_timeout_no_body =
     ev_timeout_installed\<lparr>shed_install :=
        (\<lambda>calls kwargs.
           Inl (ConnectionError \<lparr>message = ''504 Gateway Time-out'', body = None\<rparr>))\<rparr>"

section \<open>Properties of the repository comparison\<close>

lemma py_in_scalar_sym:
  assumes "\<And>l. x \<noteq> PList l" and "\<And>l. y \<noteq> PList l"
  shows "(case py_in x y of Inl e \<Rightarrow> Inl e | Inr True \<Rightarrow> Inr True
          | Inr False \<Rightarrow> (case py_in y x of Inl e \<Rightarrow> Inl e | Inr True \<Rightarrow> Inr True
                           | Inr False \<Rightarrow> Inr False))
       = (case py_in y x of Inl e \<Rightarrow> Inl e | Inr True \<Rightarrow> Inr True
          | Inr False \<Rightarrow> (case py_in x y of Inl e \<Rightarrow> Inl e | Inr True \<Rightarrow> Inr True
                           | Inr False \<Rightarrow> Inr False))"
  using assms by (cases x; cases y) (auto split: sum.splits bool.splits)

lemma url_scalar_not_list: "url_scalar d \<Longrightarrow> tool_shed_of d \<noteq> PList l"
  by (auto simp: url_scalar_def split: pyval.splits)

lemma the_same_repository_agree:
  assumes "py_get a ''changeset_revision'' = py_get b ''changeset_revision''"
      and "py_get a ''name'' = py_get b ''name''"
      and "py_get a ''owner'' = py_get b ''owner''"
  shows "the_same_repository a b =
      (case py_in (tool_shed_of a) (tool_shed_of b) of
         Inl e \<Rightarrow> Inl e
       | Inr True \<Rightarrow> Inr True
       | Inr False \<Rightarrow> (case py_in (tool_shed_of b) (tool_shed_of a) of
            Inl e \<Rightarrow> Inl e | Inr True \<Rightarrow> Inr True | Inr False \<Rightarrow> Inr False))"
  unfolding the_same_repository_def tool_shed_of_def Let_def using assms by simp

lemma sublist_ts_org: "sublist ''ts.org'' ''https://ts.org/''"
  by (simp add: sublist_Cons_right)

lemma the_same_entry_x_unit_x: "the_same_repository entry_x unit_x = Inr True"
  using sublist_ts_org
  by (simp add: the_same_repository_def entry_x_def unit_x_def py_get_def py_get_default_def)

lemma the_same_entry_y_unit_x: "the_same_repository entry_y unit_x = Inr False"
  by (simp add: the_same_repository_def entry_y_def unit_x_def py_get_def)

lemma url_scalar_examples: "url_scalar entry_x" "url_scalar entry_y" "url_scalar unit_x"
  "url_scalar entry_no_url"
  by (simp_all add: url_scalar_def tool_shed_of_def entry_x_def entry_y_def unit_x_def
        entry_no_url_def py_get_default_def)

text \<open>
  C7. For records \<open>a\<close> and \<open>b\<close> (dictionaries whose registry URL, where there is one, is a
  string), \<open>the_same_repository a b\<close> and \<open>the_same_repository b a\<close> have the same
  outcome; the result is \<open>True\<close> only if the two agree on \<^verbatim>\<open>changeset_revision\<close>,
  \<^verbatim>\<open>name\<close> and \<^verbatim>\<open>owner\<close> and one registry URL is a substring of the other; and
  whenever they differ in the revision, the name or the owner the result is \<open>False\<close>.
\<close>

theorem the_same_repository_symmetric_exact:
  assumes "url_scalar a" and "url_scalar b"
  shows "the_same_repository a b = the_same_repository b a
       \<and> (the_same_repository a b = Inr True \<longrightarrow>
            py_get a ''changeset_revision'' = py_get b ''changeset_revision''
          \<and> py_get a ''name'' = py_get b ''name''
          \<and> py_get a ''owner'' = py_get b ''owner''
          \<and> (\<exists>s t. tool_shed_of a = PStr s \<and> tool_shed_of b = PStr t
                   \<and> (sublist s t \<or> sublist t s)))
       \<and> (py_get a ''changeset_revision'' \<noteq> py_get b ''changeset_revision''
          \<or> py_get a ''name'' \<noteq> py_get b ''name''
          \<or> py_get a ''owner'' \<noteq> py_get b ''owner''
          \<longrightarrow> the_same_repository a b = Inr False)"
proof (intro conjI impI)
  note sa = url_scalar_not_list[OF assms(1)] and sb = url_scalar_not_list[OF assms(2)]
  show "the_same_repository a b = the_same_repository b a"
    using py_in_scalar_sym[of "tool_shed_of a" "tool_shed_of b"] sa sb
    unfolding tool_shed_of_def
    by (simp add: the_same_repository_def Let_def)
next
  assume t: "the_same_repository a b = Inr True"
  then show "py_get a ''changeset_revision'' = py_get b ''changeset_revision''"
    and "py_get a ''name'' = py_get b ''name''"
    and "py_get a ''owner'' = py_get b ''owner''"
    by (auto simp: the_same_repository_def split: if_splits)
  from t assms
  show "\<exists>s t. tool_shed_of a = PStr s \<and> tool_shed_of b = PStr t \<and> (sublist s t \<or> sublist t s)"
    by (cases "tool_shed_of a"; cases "tool_shed_of b")
       (auto simp: the_same_repository_def tool_shed_of_def url_scalar_def Let_def
             split: if_splits sum.splits bool.splits)
next
  assume "py_get a ''changeset_revision'' \<noteq> py_get b ''changeset_revision''
          \<or> py_get a ''name'' \<noteq> py_get b ''name''
          \<or> py_get a ''owner'' \<noteq> py_get b ''owner''"
  then show "the_same_repository a b = Inr False"
    by (auto simp: the_same_repository_def)
qed

theorem the_same_repository_symmetric_exact_witness:
  "url_scalar entry_x \<and> url_scalar entry_y \<and> url_scalar unit_x
   \<and> the_same_repository unit_x entry_x = Inr True
   \<and> tool_shed_of entry_x = PStr ''ts.org'' \<and> tool_shed_of unit_x = PStr ''https://ts.org/''
   \<and> py_get entry_y ''name'' \<noteq> py_get unit_x ''name''
   \<and> the_same_repository unit_x entry_y = Inr False"
  using the_same_repository_symmetric_exact[of entry_x unit_x]
        the_same_repository_symmetric_exact[of entry_y unit_x]
        url_scalar_examples the_same_entry_x_unit_x the_same_entry_y_unit_x
  by (simp add: tool_shed_of_def entry_x_def entry_y_def unit_x_def py_get_def py_get_default_def)

text \<open>
  C9. For records that agree on \<^verbatim>\<open>changeset_revision\<close>, \<^verbatim>\<open>name\<close> and \<^verbatim>\<open>owner\<close>:
  if either record has neither a \<^verbatim>\<open>tool_shed\<close> nor a \<^verbatim>\<open>tool_shed_url\<close> key, the
  substring test is applied to \<^verbatim>\<open>None\<close> and \<open>the_same_repository\<close> raises
  \<^verbatim>\<open>TypeError\<close>; it returns a boolean exactly when both records carry a URL string.
\<close>

theorem the_same_repository_type_error:
  assumes "py_get a ''changeset_revision'' = py_get b ''changeset_revision''"
      and "py_get a ''name'' = py_get b ''name''"
      and "py_get a ''owner'' = py_get b ''owner''"
      and "url_scalar a" and "url_scalar b"
  shows "((a ''tool_shed'' = None \<and> a ''tool_shed_url'' = None)
           \<or> (b ''tool_shed'' = None \<and> b ''tool_shed_url'' = None)
          \<longrightarrow> the_same_repository a b = Inl TypeError)
       \<and> ((\<exists>r. the_same_repository a b = Inr r)
            \<longleftrightarrow> (\<exists>s t. tool_shed_of a = PStr s \<and> tool_shed_of b = PStr t))"
proof -
  note eq = the_same_repository_agree[OF assms(1-3)]
  have none: "tool_shed_of d = PNone"
    if "d ''tool_shed'' = None \<and> d ''tool_shed_url'' = None" for d
    using that by (simp add: tool_shed_of_def py_get_default_def)
  have raise_a: "the_same_repository a b = Inl TypeError" if "tool_shed_of a = PNone"
    using that assms(5) unfolding eq
    by (cases "tool_shed_of b") (auto simp: url_scalar_def)
  have raise_b: "the_same_repository a b = Inl TypeError" if "tool_shed_of b = PNone"
    using that assms(4) unfolding eq
    by (cases "tool_shed_of a") (auto simp: url_scalar_def)
  have total: "(\<exists>r. the_same_repository a b = Inr r)
            \<longleftrightarrow> (\<exists>s t. tool_shed_of a = PStr s \<and> tool_shed_of b = PStr t)"
    using assms(4,5) unfolding eq
    by (cases "tool_shed_of a"; cases "tool_shed_of b")
       (auto simp: url_scalar_def split: sum.splits bool.splits)
  show ?thesis
    using none[of a] none[of b] raise_a raise_b total by blast
qed

theorem the_same_repository_type_error_witness:
  "py_get entry_no_url ''changeset_revision'' = py_get unit_x ''changeset_revision''
   \<and> py_get entry_no_url ''name'' = py_get unit_x ''name''
   \<and> py_get entry_no_url ''owner'' = py_get unit_x ''owner''
   \<and> url_scalar entry_no_url \<and> url_scalar unit_x
   \<and> entry_no_url ''tool_shed'' = None \<and> entry_no_url ''tool_shed_url'' = None
   \<and> the_same_repository entry_no_url unit_x = Inl TypeError"
  using the_same_repository_type_error[of entry_no_url unit_x] url_scalar_examples
  by (simp add: entry_no_url_def unit_x_def py_get_def)

section \<open>Properties of the flattening\<close>

text \<open>
  The inner loop appends the reference \<open>r\<close> once per revision and leaves in the one
  object the last revision: all the units of an entry are the same dictionary.
\<close>

lemma flatten_revisions_result:
  "flatten_revisions r revs (h, acc) =
     ((if revs = [] then h else h(r := (h r)(''changeset_revision'' \<mapsto> last revs))),
      acc @ replicate (length revs) r)"
proof (induction revs arbitrary: h acc)
  case Nil
  show ?case by simp
next
  case (Cons rev revs)
  show ?case
    by (auto simp: Cons.IH replicate_append_same fun_eq_iff)
qed

text \<open>
  C1. The desired list holds one entry, with the revisions \<^verbatim>\<open>r1\<close> and \<^verbatim>\<open>r2\<close>.
  \<open>flatten_repo_info\<close> emits two units, both the same dictionary object; the
  \<^verbatim>\<open>revisions\<close> key is gone, and the \<^verbatim>\<open>changeset_revision\<close> of both units is \<^verbatim>\<open>r2\<close>, so the
  first unit does not carry the first listed revision.
\<close>

theorem flatten_repo_info_shares_object:
  "map_sum id (\<lambda>(h, units). (units, map (\<lambda>u. h u ''changeset_revision'') units,
                                 map (\<lambda>u. h u ''revisions'') units))
     (flatten_repo_info (heap_of [spec_two_revisions]) [0])
   = Inr ([0, 0], [Some (PStr ''r2''), Some (PStr ''r2'')], [None, None])"
  by (simp add: flatten_repo_info_def heap_of_def spec_two_revisions_def py_get_default_def)

section \<open>Properties of install_tools\<close>

text \<open>
  C8. For the empty desired list \<open>install_tools\<close> raises the \<^verbatim>\<open>ValueError\<close> of its first
  statement, whatever the host, the registry, the logger and the options are: nothing
  is flattened, resolved, filtered or installed, and there is no report.
\<close>

theorem install_tools_empty:
  "install_tools ev log force_latest_revision default_toolshed h [] =
     Inl (ValueError Empty_tool_list)"
  by (simp add: install_tools_def)

section \<open>Properties of the filter and of the normalisation\<close>

lemma namedtuple_FilterResults:
  "namedtuple ''FilterResults'' [''not_installed_repos'', ''already_installed_repos'']
     = Inr [''not_installed_repos'', ''already_installed_repos'']"
  by (simp add: namedtuple_def isidentifier_def)

lemma namedtuple_InstallResults:
  "namedtuple ''InstallResults''
     [''installed_repositories, errored_repositories, skipped_repositories'']
   = Inl (ValueError (Invalid_field_name
       ''installed_repositories, errored_repositories, skipped_repositories''))"
  by (simp add: namedtuple_def isidentifier_def)

lemma installed_repos_Nil: "installed_repos [] = Inr []"
  by (simp add: installed_repos_def flatten_repo_info_def)

lemma installed_repos_yz:
  "installed_repos [tool_y, tool_z] =
     Inr [(tool_y(''revisions'' := None))(''changeset_revision'' \<mapsto> PStr ''r1''),
          (tool_z(''revisions'' := None))(''changeset_revision'' \<mapsto> PStr ''r1'')]"
  by (simp add: installed_repos_def flatten_repo_info_def heap_of_def tool_y_def tool_z_def
        py_get_default_def)

lemma installed_repos_xy:
  "installed_repos [tool_x, tool_y] =
     Inr [(tool_x(''revisions'' := None))(''changeset_revision'' \<mapsto> PStr ''r1''),
          (tool_y(''revisions'' := None))(''changeset_revision'' \<mapsto> PStr ''r1'')]"
  by (simp add: installed_repos_def flatten_repo_info_def heap_of_def tool_x_def tool_y_def
        py_get_default_def)

lemma same_x: "the_same_repository ((tool_x(''revisions'' := None))(''changeset_revision'' \<mapsto> PStr ''r1'')) unit_x = Inr True"
  using sublist_ts_org
  by (simp add: the_same_repository_def tool_x_def unit_x_def py_get_def py_get_default_def)

lemma same_y: "the_same_repository ((tool_y(''revisions'' := None))(''changeset_revision'' \<mapsto> PStr ''r1'')) unit_x = Inr False"
  by (simp add: the_same_repository_def tool_y_def unit_x_def py_get_def py_get_default_def)

lemma same_z: "the_same_repository ((tool_z(''revisions'' := None))(''changeset_revision'' \<mapsto> PStr ''r1'')) unit_x = Inr False"
  by (simp add: the_same_repository_def tool_z_def unit_x_def py_get_def py_get_default_def)

lemma heap_of_single: "heap_of [d] 0 = d"
  by (simp add: heap_of_def)

text \<open>
  The inner loop of the filter appends the unit once for every inventory entry, to the
  one list or to the other.
\<close>

lemma filter_one_appends_per_entry:
  "filter_one inventory h repo (not_installed, already) = Inr (not_installed', already') \<Longrightarrow>
   (\<exists>xs ys. not_installed' = not_installed @ xs \<and> already' = already @ ys
      \<and> set xs \<subseteq> {repo} \<and> set ys \<subseteq> {repo}
      \<and> length xs + length ys = length inventory)"
proof (induction inventory arbitrary: not_installed already)
  case Nil
  then show ?case by simp
next
  case (Cons installed_tool rest)
  show ?case
  proof (cases "the_same_repository installed_tool (h repo)")
    case (Inl e)
    with Cons.prems show ?thesis by simp
  next
    case (Inr same)
    show ?thesis
    proof (cases same)
      case True
      with Inr Cons.prems
      have "filter_one rest h repo (not_installed, already @ [repo]) = Inr (not_installed', already')"
        by simp
      from Cons.IH[OF this] show ?thesis by auto
    next
      case False
      with Inr Cons.prems
      have "filter_one rest h repo (not_installed @ [repo], already) = Inr (not_installed', already')"
        by simp
      from Cons.IH[OF this] show ?thesis by auto
    qed
  qed
qed


text \<open>
  C2. One resolved unit \<open>unit_x\<close> is filtered against three inventories. Against the
  empty inventory the unit is in neither list; against two entries that are other
  repositories it is twice in \<open>not_installed_repos\<close>; against its own entry and another
  one it is in both lists. The filter appends the unit once per inventory entry, so it
  does not partition the units.
\<close>

theorem filter_installed_repos_no_partition:
  "filter_installed_repos (ev\<lparr>installed_tools := \<lambda>k. []\<rparr>) (heap_of [unit_x]) [0] = Inr ([], [])
   \<and> filter_installed_repos (ev\<lparr>installed_tools := \<lambda>k. [tool_y, tool_z]\<rparr>) (heap_of [unit_x]) [0]
       = Inr ([0, 0], [])
   \<and> filter_installed_repos (ev\<lparr>installed_tools := \<lambda>k. [tool_x, tool_y]\<rparr>) (heap_of [unit_x]) [0]
       = Inr ([0], [0])"
  by (simp add: filter_installed_repos_def namedtuple_FilterResults installed_repos_Nil
        installed_repos_yz installed_repos_xy heap_of_single same_x same_y same_z)

lemma set_defaults_unbound_start:
  "complete_repo_information repository default_toolshed True = Inl (KeyError k) \<Longrightarrow>
   set_defaults_in_repo_information ev force_latest_revision default_toolshed None repository
     = Inl (NameError ''start'')"
  by (simp add: set_defaults_in_repo_information_def)

lemma complete_no_name:
  "complete_repo_information spec_no_name default_toolshed True = Inl (KeyError (Missing_key ''name''))"
  by (simp add: complete_repo_information_def spec_no_name_def py_getitem_def)

lemma complete_no_section:
  "complete_repo_information spec_no_section default_toolshed True
     = Inl (KeyError (Panel_section_undefined (PStr ''x'')))"
  by (simp add: complete_repo_information_def spec_no_section_def py_getitem_def py_get_def
        Let_def sublist_Cons_right)

lemma flatten_plain:
  "flatten_repo_info (heap_of [spec_no_name, spec_good]) [0, Suc 0]
     = Inr (heap_of [spec_no_name, spec_good], [0, Suc 0])"
  "flatten_repo_info (heap_of [spec_no_section, spec_good]) [0, Suc 0]
     = Inr (heap_of [spec_no_section, spec_good], [0, Suc 0])"
  by (simp_all add: flatten_repo_info_def heap_of_def spec_no_name_def spec_good_def
        spec_no_section_def)

lemma heap_of_pair: "heap_of [a, b] 0 = a" "heap_of [a, b] (Suc 0) = b"
  by (simp_all add: heap_of_def)

text \<open>
  C3. A batch of two units whose first unit lacks the \<^verbatim>\<open>name\<close>, and a batch whose first
  unit has neither panel-section field: the handler of the \<^verbatim>\<open>KeyError\<close> reads the variable
  \<^verbatim>\<open>start\<close> before it is assigned, and \<open>install_tools\<close> ends with a \<^verbatim>\<open>NameError\<close>. The unit
  is not recorded as errored and the second unit is not processed.
\<close>

theorem install_tools_missing_field_raises:
  "install_tools ev log force_latest_revision default_toolshed
      (heap_of [spec_no_name, spec_good]) [0, 1] = Inl (NameError ''start'')
   \<and> install_tools ev log force_latest_revision default_toolshed
      (heap_of [spec_no_section, spec_good]) [0, 1] = Inl (NameError ''start'')"
  by (simp add: install_tools_def flatten_plain process_repositories_def resolve_repositories_def
        heap_of_pair set_defaults_unbound_start[OF complete_no_name]
        set_defaults_unbound_start[OF complete_no_section])


section \<open>Properties of the install call\<close>

lemma install_repository_revision_no_label:
  "objects st repository ''tool_panel_section_label'' = None \<Longrightarrow>
   install_repository_revision ev repository log st
     = (Inl (KeyError (Missing_key ''tool_panel_section_label'')), st)"
  by (simp add: install_repository_revision_def)

lemma install_repository_revision_state:
  assumes "objects st repository ''tool_panel_section_label'' = Some label"
  shows "snd (install_repository_revision ev repository log st) =
     st\<lparr>objects := (objects st)(repository := (objects st repository)
                        (''tool_panel_section_label'' := None,
                         ''new_tool_panel_section_label'' \<mapsto> label)),
        install_calls := install_calls st @ [(objects st repository)
                        (''tool_panel_section_label'' := None,
                         ''new_tool_panel_section_label'' \<mapsto> label)]\<rparr>"
  using assms
  by (simp add: install_repository_revision_def Let_def split: sum.splits response.splits)

text \<open>
  C10. Whenever \<open>install_repository_revision\<close> issues an install call, the dictionary
  of the caller had a \<^verbatim>\<open>tool_panel_section_label\<close> key; after the call, whether it returned
  or raised (\<open>outcome\<close> is arbitrary), that key is gone from the caller's dictionary, the
  key \<^verbatim>\<open>new_tool_panel_section_label\<close> holds its value, every other key and every other
  object is as before, and the changed dictionary is what the install call received.
  (Without the key, \<^verbatim>\<open>pop\<close> raises and no call is issued:
  \<open>install_repository_revision_no_label\<close>.)
\<close>

theorem install_repository_revision_mutates_argument:
  assumes "install_repository_revision ev repository log st = (outcome, st')"
      and "install_calls st' \<noteq> install_calls st"
  shows "\<exists>label. objects st repository ''tool_panel_section_label'' = Some label
         \<and> objects st' repository ''tool_panel_section_label'' = None
         \<and> objects st' repository ''new_tool_panel_section_label'' = Some label
         \<and> (\<forall>k. k \<noteq> ''tool_panel_section_label'' \<and> k \<noteq> ''new_tool_panel_section_label''
                \<longrightarrow> objects st' repository k = objects st repository k)
         \<and> (\<forall>r. r \<noteq> repository \<longrightarrow> objects st' r = objects st r)
         \<and> install_calls st' = install_calls st @ [objects st' repository]"
proof (cases "objects st repository ''tool_panel_section_label''")
  case None
  from install_repository_revision_no_label[OF None, of ev log] assms show ?thesis by simp
next
  case (Some label)
  from install_repository_revision_state[OF Some, of ev log] assms(1)
  have "st' = st\<lparr>objects := (objects st)(repository := (objects st repository)
                        (''tool_panel_section_label'' := None,
                         ''new_tool_panel_section_label'' \<mapsto> label)),
        install_calls := install_calls st @ [(objects st repository)
                        (''tool_panel_section_label'' := None,
                         ''new_tool_panel_section_label'' \<mapsto> label)]\<rparr>"
    by simp
  with Some show ?thesis by simp
qed

theorem install_repository_revision_mutates_argument_witness:
  "install_calls (snd (install_repository_revision ev_ok 0 False st_x)) \<noteq> install_calls st_x
   \<and> fst (install_repository_revision ev_ok 0 False st_x) = Inr (RValue PNone)
   \<and> objects (snd (install_repository_revision ev_ok 0 False st_x)) 0
        ''tool_panel_section_label'' = None
   \<and> objects (snd (install_repository_revision ev_ok 0 False st_x)) 0
        ''new_tool_panel_section_label'' = Some PNone
   \<and> install_calls (snd (install_repository_revision ev_duplicate 0 False st_x))
        \<noteq> install_calls st_x
   \<and> fst (install_repository_revision ev_duplicate 0 False st_x)
        = Inl (ConnectionError \<lparr>message = ''400'', body = Some default_err_msg\<rparr>)
   \<and> objects (snd (install_repository_revision ev_duplicate 0 False st_x)) 0
        ''tool_panel_section_label'' = None
   \<and> objects (snd (install_repository_revision ev_duplicate 0 False st_x)) 0
        ''new_tool_panel_section_label'' = Some PNone"
  using install_repository_revision_mutates_argument
          [of ev_ok 0 False st_x "fst (install_repository_revision ev_ok 0 False st_x)"
              "snd (install_repository_revision ev_ok 0 False st_x)"]
        install_repository_revision_mutates_argument
          [of ev_duplicate 0 False st_x
              "fst (install_repository_revision ev_duplicate 0 False st_x)"
              "snd (install_repository_revision ev_duplicate 0 False st_x)"]
  by (simp add: install_repository_revision_def st_x_def ev_ok_def ev_duplicate_def
        heap_of_single unit_x_def Let_def)


section \<open>Properties of the install driver\<close>

lemma py_getitems_Inr_iff:
  "(\<exists>vs. py_getitems d ks = Inr vs) \<longleftrightarrow> (\<forall>k \<in> set ks. d k \<noteq> None)"
  by (induction ks) (auto simp: py_getitem_def split: option.splits sum.splits)

lemma py_getitems_present:
  "\<forall>k \<in> set ks. d k \<noteq> None \<Longrightarrow> \<exists>vs. py_getitems d ks = Inr vs"
  using py_getitems_Inr_iff by blast

lemma log_repository_install_start_Inr:
  assumes "log_repository_install_start d log = Inr u"
  shows "log" and "d ''name'' \<noteq> None" and "d ''owner'' \<noteq> None"
    and "d ''changeset_revision'' \<noteq> None"
proof -
  from assms show "log"
    by (auto simp: log_repository_install_start_def split: if_splits)
  from assms obtain vs ws where
    vs: "py_getitems d [''name'', ''owner'', ''tool_panel_section_id''] = Inr vs" and
    ws: "py_getitems d ((if py_truthy (last vs) then [] else [''tool_panel_section_label''])
                          @ [''changeset_revision'']) = Inr ws"
    by (auto simp: log_repository_install_start_def split: if_splits sum.splits)
  from vs have "\<forall>k \<in> set [''name'', ''owner'', ''tool_panel_section_id'']. d k \<noteq> None"
    using py_getitems_Inr_iff by blast
  then show "d ''name'' \<noteq> None" and "d ''owner'' \<noteq> None" by simp_all
  from ws have "\<forall>k \<in> set ((if py_truthy (last vs) then [] else [''tool_panel_section_label''])
                          @ [''changeset_revision'']). d k \<noteq> None"
    using py_getitems_Inr_iff by blast
  then show "d ''changeset_revision'' \<noteq> None" by simp
qed

lemma install_repository_revision_raises:
  assumes "install_repository_revision ev repository log st = (Inl (ConnectionError e), st1)"
  shows "\<exists>label. objects st repository ''tool_panel_section_label'' = Some label
     \<and> st1 = st\<lparr>objects := (objects st)(repository := (objects st repository)
                        (''tool_panel_section_label'' := None,
                         ''new_tool_panel_section_label'' \<mapsto> label)),
        install_calls := install_calls st @ [(objects st repository)
                        (''tool_panel_section_label'' := None,
                         ''new_tool_panel_section_label'' \<mapsto> label)]\<rparr>
     \<and> shed_install ev (install_calls st) ((objects st repository)
                        (''tool_panel_section_label'' := None,
                         ''new_tool_panel_section_label'' \<mapsto> label))
         = Inl (ConnectionError e)"
proof (cases "objects st repository ''tool_panel_section_label''")
  case None
  with assms show ?thesis by (simp add: install_repository_revision_def)
next
  case (Some label)
  with assms show ?thesis
    by (auto simp: install_repository_revision_def Let_def py_getitem_def
             split: sum.splits response.splits if_splits option.splits)
qed

text \<open>
  C5. A unit whose install call is reached (the start of the install is logged) and
  raises a connection error whose body contains the duplicate-install phrase: the pass
  through the loop ends without an exception, in the state \<open>st1\<close> that the install call
  left; the installed, the skipped and the errored list are what they were; and the
  loop goes on with the remaining units.
\<close>

theorem duplicate_install_not_reported:
  assumes "log_repository_install_start (objects st repository) log = Inr ()"
      and "install_repository_revision ev repository False (st\<lparr>counter := counter st + 1\<rparr>)
             = (Inl (ConnectionError e), st1)"
      and "body e = Some b" and "sublist default_err_msg b"
  shows "install_one ev log repository st = Inr st1
       \<and> installed_repositories st1 = installed_repositories st
       \<and> skipped_repositories st1 = skipped_repositories st
       \<and> errored_repositories st1 = errored_repositories st
       \<and> install_loop ev log (repository # rest) st = install_loop ev log rest st1"
proof -
  note s = log_repository_install_start_Inr[OF assms(1)]
  from install_repository_revision_raises[OF assms(2)] obtain label where
    st1: "st1 = st\<lparr>counter := counter st + 1,
                  objects := (objects st)(repository := (objects st repository)
                        (''tool_panel_section_label'' := None,
                         ''new_tool_panel_section_label'' \<mapsto> label)),
        install_calls := install_calls st @ [(objects st repository)
                        (''tool_panel_section_label'' := None,
                         ''new_tool_panel_section_label'' \<mapsto> label)]\<rparr>"
    by auto
  have "\<forall>k \<in> set [''name'', ''changeset_revision'']. objects st1 repository k \<noteq> None"
    using s by (simp add: st1)
  from py_getitems_present[OF this] obtain vs where
    "py_getitems (objects st1 repository) [''name'', ''changeset_revision''] = Inr vs" ..
  then have dbg: "log_debug log (objects st1 repository) [''name'', ''changeset_revision''] = Inr ()"
    using s(1) by (simp add: log_debug_def)
  have one: "install_one ev log repository st = Inr st1"
    using assms dbg by (simp add: install_one_def Let_def)
  then show ?thesis by (simp add: st1)
qed

lemma log_start_st_x: "log_repository_install_start (objects st_x 0) True = Inr ()"
  by (simp add: log_repository_install_start_def st_x_def heap_of_single unit_x_def
        py_getitem_def)

lemma install_repository_revision_duplicate_st_x:
  "fst (install_repository_revision ev_duplicate 0 False (st_x\<lparr>counter := counter st_x + 1\<rparr>))
     = Inl (ConnectionError \<lparr>message = ''400'', body = Some default_err_msg\<rparr>)"
  by (simp add: install_repository_revision_def st_x_def ev_ok_def ev_duplicate_def
        heap_of_single unit_x_def Let_def)

theorem duplicate_install_not_reported_witness:
  "log_repository_install_start (objects st_x 0) True = Inr ()
   \<and> fst (install_repository_revision ev_duplicate 0 False (st_x\<lparr>counter := counter st_x + 1\<rparr>))
       = Inl (ConnectionError \<lparr>message = ''400'', body = Some default_err_msg\<rparr>)
   \<and> sublist default_err_msg default_err_msg
   \<and> install_one ev_duplicate True 0 st_x
       = Inr (snd (install_repository_revision ev_duplicate 0 False
                     (st_x\<lparr>counter := counter st_x + 1\<rparr>)))
   \<and> installed_repositories
         (snd (install_repository_revision ev_duplicate 0 False
                 (st_x\<lparr>counter := counter st_x + 1\<rparr>))) = []
   \<and> skipped_repositories
         (snd (install_repository_revision ev_duplicate 0 False
                 (st_x\<lparr>counter := counter st_x + 1\<rparr>))) = []
   \<and> errored_repositories
         (snd (install_repository_revision ev_duplicate 0 False
                 (st_x\<lparr>counter := counter st_x + 1\<rparr>))) = []"
proof -
  have call: "install_repository_revision ev_duplicate 0 False (st_x\<lparr>counter := counter st_x + 1\<rparr>)
      = (Inl (ConnectionError \<lparr>message = ''400'', body = Some default_err_msg\<rparr>),
         snd (install_repository_revision ev_duplicate 0 False
                (st_x\<lparr>counter := counter st_x + 1\<rparr>)))"
    using install_repository_revision_duplicate_st_x by (simp add: prod_eq_iff)
  have "installed_repositories st_x = []" "skipped_repositories st_x = []"
    "errored_repositories st_x = []"
    by (simp_all add: st_x_def)
  with duplicate_install_not_reported[OF log_start_st_x call, of default_err_msg "[]"]
  show ?thesis
    using log_start_st_x install_repository_revision_duplicate_st_x by simp
qed


section \<open>Properties of the resolution\<close>

lemma comprehension_append:
  "comprehension f (xs @ ys) =
     (case comprehension f xs of
        Inl e \<Rightarrow> Inl e
      | Inr as \<Rightarrow> (case comprehension f ys of Inl e \<Rightarrow> Inl e | Inr bs \<Rightarrow> Inr (as @ bs)))"
  by (induction xs) (auto split: sum.splits)

lemma not_none_append: "not_none (xs @ ys) = not_none xs @ not_none ys"
  by (induction xs rule: not_none.induct) auto

lemma comprehension_drop_None:
  assumes "f u = Inr None"
  shows "map_sum id not_none (comprehension f (us1 @ u # us2))
       = map_sum id not_none (comprehension f (us1 @ us2))"
  using assms by (auto simp: comprehension_append not_none_append split: sum.splits)

lemma resolve_repositories_map_sum:
  "resolve_repositories ev force_latest_revision default_toolshed us =
     map_sum id not_none
       (comprehension
          (set_defaults_in_repo_information ev force_latest_revision default_toolshed None) us)"
  by (simp add: resolve_repositories_def split: sum.splits)

lemma complete_repo_information_keys:
  assumes "complete_repo_information u default_toolshed require = Inr c"
  shows "c ''name'' \<noteq> None" and "c ''owner'' \<noteq> None" and "c ''tool_shed_url'' \<noteq> None"
    and "c ''changeset_revision'' \<noteq> None" and "c ''tool_panel_section_id'' \<noteq> None"
    and "c ''tool_panel_section_label'' \<noteq> None"
  using assms
  by (auto simp: complete_repo_information_def Let_def split: sum.splits bool.splits if_splits)

lemma py_getitem_present: "d k \<noteq> None \<Longrightarrow> py_getitem d k = Inr (py_get d k)"
  by (auto simp: py_getitem_def py_get_def)

text \<open>
  C6. A unit \<open>u\<close> that completes to \<open>c\<close>, needs resolution (no revision, or the latest
  revision is forced) and for which the registry returns the empty list: the
  normalisation yields \<^verbatim>\<open>None\<close> for it, so it is not in \<open>repository_list\<close>, and the run on a
  batch that contains it, up to the end of the install loop, is the run on the batch
  without it: the same installed, skipped and errored lists, the same install calls.
\<close>

theorem unresolvable_unit_dropped:
  assumes "complete_repo_information u default_toolshed True = Inr c"
      and "py_get c ''changeset_revision'' = PNone \<or> force_latest_revision"
      and "get_ordered_installable_revisions ev (py_get c ''tool_shed_url'')
             (py_get c ''name'') (py_get c ''owner'') = Inr []"
  shows "set_defaults_in_repo_information ev force_latest_revision default_toolshed None u
           = Inr None
       \<and> resolve_repositories ev force_latest_revision default_toolshed (us1 @ u # us2)
           = resolve_repositories ev force_latest_revision default_toolshed (us1 @ us2)
       \<and> process_repositories ev log force_latest_revision default_toolshed (us1 @ u # us2)
           = process_repositories ev log force_latest_revision default_toolshed (us1 @ us2)"
proof -
  note k = complete_repo_information_keys[OF assms(1)]
  have "get_changeset_revisions ev c force_latest_revision = Inr None"
    using assms(2,3) k(1-3)
    by (simp add: get_changeset_revisions_def py_getitem_present)
  then have none:
    "set_defaults_in_repo_information ev force_latest_revision default_toolshed None u = Inr None"
    using assms(1) by (simp add: set_defaults_in_repo_information_def)
  have res: "resolve_repositories ev force_latest_revision default_toolshed (us1 @ u # us2)
           = resolve_repositories ev force_latest_revision default_toolshed (us1 @ us2)"
    unfolding resolve_repositories_map_sum
    using none
    by (rule comprehension_drop_None
               [of "set_defaults_in_repo_information ev force_latest_revision default_toolshed None"])
  show ?thesis
    using none res by (simp add: process_repositories_def)
qed

lemma complete_spec_unresolved:
  "complete_repo_information spec_unresolved (PStr ''https://ts.org/'') True =
     Inr [''name'' \<mapsto> PStr ''x'', ''owner'' \<mapsto> PStr ''o'',
          ''tool_panel_section_id'' \<mapsto> PStr ''s'', ''tool_panel_section_label'' \<mapsto> PNone,
          ''tool_shed_url'' \<mapsto> PStr ''https://ts.org/'', ''changeset_revision'' \<mapsto> PNone]"
  by (simp add: complete_repo_information_def spec_unresolved_def py_getitem_def py_get_def
        py_get_default_def format_tool_shed_url_def Let_def suffix_def)

lemma process_repositories_Nil:
  "process_repositories ev_ok True False (PStr ''https://ts.org/'') [] =
     Inr \<lparr>installed_repositories = [], skipped_repositories = [], errored_repositories = [],
          counter = 0, objects = heap_of [], install_calls = [], polls = 0\<rparr>"
  by (simp add: process_repositories_def resolve_repositories_def install_phase_def
        filter_installed_repos_def namedtuple_FilterResults)

theorem unresolvable_unit_dropped_witness:
  "complete_repo_information spec_unresolved (PStr ''https://ts.org/'') True =
     Inr [''name'' \<mapsto> PStr ''x'', ''owner'' \<mapsto> PStr ''o'',
          ''tool_panel_section_id'' \<mapsto> PStr ''s'', ''tool_panel_section_label'' \<mapsto> PNone,
          ''tool_shed_url'' \<mapsto> PStr ''https://ts.org/'', ''changeset_revision'' \<mapsto> PNone]
   \<and> get_ordered_installable_revisions ev_ok (PStr ''https://ts.org/'') (PStr ''x'') (PStr ''o'')
       = Inr []
   \<and> set_defaults_in_repo_information ev_ok False (PStr ''https://ts.org/'') None spec_unresolved
       = Inr None
   \<and> process_repositories ev_ok True False (PStr ''https://ts.org/'') [spec_unresolved] =
       Inr \<lparr>installed_repositories = [], skipped_repositories = [], errored_repositories = [],
            counter = 0, objects = heap_of [], install_calls = [], polls = 0\<rparr>"
  using unresolvable_unit_dropped[OF complete_spec_unresolved, of False ev_ok "[]" "[]" True]
        complete_spec_unresolved process_repositories_Nil
  by (simp add: py_get_def ev_ok_def)


section \<open>Properties of the polling\<close>

lemma scan_repositories_first_decisive:
  assumes "repository ''name'' \<noteq> None" and "repository ''owner'' \<noteq> None"
      and "list_all entry_ok entries"
  shows "\<exists>m. scan_repositories repository entries n = Inr (first_decisive repository entries, m)
           \<and> (first_decisive repository entries = None \<longrightarrow> m = n + pending repository entries)"
  using assms
proof (induction entries arbitrary: n)
  case Nil
  then show ?case by (simp add: pending_def)
next
  case (Cons entry entries)
  from Cons.prems have "entry_ok entry" and rest: "list_all entry_ok entries"
    by simp_all
  then have ok: "entry ''name'' \<noteq> None" "entry ''owner'' \<noteq> None"
    "entry ''status'' \<noteq> None"
    by (simp_all add: entry_ok_def)
  note ih = Cons.IH[OF Cons.prems(1,2) rest]
  have g: "py_getitem repository ''name'' = Inr (py_get repository ''name'')"
    "py_getitem repository ''owner'' = Inr (py_get repository ''owner'')"
    "py_getitem entry ''name'' = Inr (py_get entry ''name'')"
    "py_getitem entry ''owner'' = Inr (py_get entry ''owner'')"
    "py_getitem entry ''status'' = Inr (py_get entry ''status'')"
    using ok Cons.prems(1,2) by (simp_all add: py_getitem_present)
  show ?case
    using ih[of n] ih[of "Suc n"]
    by (auto simp: g pending_def)
qed

lemma wait_loop_step:
  assumes "repository ''name'' \<noteq> None" and "repository ''owner'' \<noteq> None"
      and "listing_ok (snd (get_repositories ev k))"
  shows "wait_loop ev repository timeout elapsed k =
     (if elapsed < timeout * 1000000 then
        (case poll_verdict repository (snd (get_repositories ev k)) of
           Some success \<Rightarrow> (Inr success, Suc k)
         | None \<Rightarrow>
             wait_loop ev repository timeout
               (elapsed + poll_cost repository (get_repositories ev k)) (Suc k))
      else (Inr False, k))"
proof (cases "get_repositories ev k")
  case (Pair duration outcome)
  show ?thesis
  proof (cases outcome)
    case (Inl e)
    with assms(3) Pair obtain c where "e = ConnectionError c"
      by (cases e) (simp_all add: listing_ok_def)
    with Inl Pair show ?thesis
      by (subst wait_loop.simps) (simp add: poll_verdict_def poll_cost_def ac_simps)
  next
    case (Inr entries)
    with assms(3) Pair have "list_all entry_ok entries"
      by (simp add: listing_ok_def)
    from scan_repositories_first_decisive[OF assms(1,2) this, of 0]
    obtain m where
      m: "scan_repositories repository entries 0 = Inr (first_decisive repository entries, m)"
         "first_decisive repository entries = None \<longrightarrow> m = pending repository entries"
      by auto
    with Inr Pair show ?thesis
      by (subst wait_loop.simps)
         (auto simp: poll_verdict_def poll_cost_def ac_simps split: option.splits)
  qed
qed

lemma found_shift:
  assumes "V k = None"
  shows "(\<exists>j. (\<forall>i<j. V (k + i) = None) \<and> el + B k j < (T::nat) \<and> V (k + j) = Some True)
     \<longleftrightarrow> (\<exists>j. (\<forall>i<j. V (Suc k + i) = None) \<and> el + B k (Suc j) < T
              \<and> V (Suc k + j) = Some True)"
proof
  assume "\<exists>j. (\<forall>i<j. V (k + i) = None) \<and> el + B k j < T \<and> V (k + j) = Some True"
  then obtain j where j: "\<forall>i<j. V (k + i) = None" "el + B k j < T" "V (k + j) = Some True"
    by blast
  with assms obtain j' where j': "j = Suc j'"
    by (cases j) auto
  have "\<forall>i<j'. V (Suc k + i) = None"
  proof (intro allI impI)
    fix i assume "i < j'"
    then have "Suc i < j" using j' by simp
    with j(1) have "V (k + Suc i) = None" by blast
    then show "V (Suc k + i) = None" by simp
  qed
  with j j' show "\<exists>j. (\<forall>i<j. V (Suc k + i) = None) \<and> el + B k (Suc j) < T
              \<and> V (Suc k + j) = Some True"
    by auto
next
  assume "\<exists>j. (\<forall>i<j. V (Suc k + i) = None) \<and> el + B k (Suc j) < T
              \<and> V (Suc k + j) = Some True"
  then obtain j where j: "\<forall>i<j. V (Suc k + i) = None" "el + B k (Suc j) < T"
    "V (Suc k + j) = Some True"
    by blast
  have "\<forall>i<Suc j. V (k + i) = None"
  proof (intro allI impI)
    fix i assume i: "i < Suc j"
    show "V (k + i) = None"
    proof (cases i)
      case 0
      with assms show ?thesis by simp
    next
      case (Suc i')
      with i have "i' < j" by simp
      with j(1) have "V (Suc k + i') = None" by blast
      with Suc show ?thesis by simp
    qed
  qed
  with j show "\<exists>j. (\<forall>i<j. V (k + i) = None) \<and> el + B k j < T \<and> V (k + j) = Some True"
    by (intro exI[of _ "Suc j"]) simp
qed

lemma poll_cost_pos: "0 < poll_cost repository p"
  by (simp add: poll_cost_def)

lemma wait_loop_found:
  assumes "repository ''name'' \<noteq> None" and "repository ''owner'' \<noteq> None"
      and "\<forall>k. listing_ok (snd (get_repositories ev k))"
  shows "fst (wait_loop ev repository timeout elapsed k) =
     Inr (\<exists>j. (\<forall>i<j. poll_verdict repository (snd (get_repositories ev (k + i))) = None)
             \<and> elapsed + poll_begin ev repository k j < timeout * 1000000
             \<and> poll_verdict repository (snd (get_repositories ev (k + j))) = Some True)"
proof (induction "timeout * 1000000 - elapsed" arbitrary: elapsed k rule: less_induct)
  case less
  let ?V = "\<lambda>k. poll_verdict repository (snd (get_repositories ev k))"
  let ?T = "timeout * 1000000"
  from assms(3) have ok: "listing_ok (snd (get_repositories ev k))" by blast
  note step = wait_loop_step[OF assms(1,2) ok, of timeout elapsed]
  show ?case
  proof (cases "elapsed < ?T")
    case False
    then show ?thesis using step by auto
  next
    case True
    show ?thesis
    proof (cases "?V k")
      case (Some success)
      have "(\<exists>j. (\<forall>i<j. ?V (k + i) = None) \<and> elapsed + poll_begin ev repository k j < ?T
                 \<and> ?V (k + j) = Some True) \<longleftrightarrow> success"
      proof
        assume "\<exists>j. (\<forall>i<j. ?V (k + i) = None) \<and> elapsed + poll_begin ev repository k j < ?T
                 \<and> ?V (k + j) = Some True"
        then obtain j where j: "\<forall>i<j. ?V (k + i) = None" "?V (k + j) = Some True" by blast
        show success
        proof (cases j)
          case 0
          with j(2) Some show ?thesis by simp
        next
          case (Suc j')
          with j(1) have "?V (k + 0) = None" by blast
          with Some show ?thesis by simp
        qed
      next
        assume success
        with Some True show "\<exists>j. (\<forall>i<j. ?V (k + i) = None)
                 \<and> elapsed + poll_begin ev repository k j < ?T \<and> ?V (k + j) = Some True"
          by (intro exI[of _ 0]) simp
      qed
      with step True Some show ?thesis by simp
    next
      case None
      let ?el = "elapsed + poll_cost repository (get_repositories ev k)"
      have "?T - ?el < ?T - elapsed"
        using True poll_cost_pos[of repository "get_repositories ev k"] by linarith
      from less[OF this, of "Suc k"]
      have ih: "fst (wait_loop ev repository timeout ?el (Suc k)) =
         Inr (\<exists>j. (\<forall>i<j. ?V (Suc k + i) = None)
                 \<and> ?el + poll_begin ev repository (Suc k) j < ?T
                 \<and> ?V (Suc k + j) = Some True)" .
      have "(\<exists>j. (\<forall>i<j. ?V (k + i) = None) \<and> elapsed + poll_begin ev repository k j < ?T
                 \<and> ?V (k + j) = Some True)
          \<longleftrightarrow> (\<exists>j. (\<forall>i<j. ?V (Suc k + i) = None)
                 \<and> elapsed + poll_begin ev repository k (Suc j) < ?T
                 \<and> ?V (Suc k + j) = Some True)"
        by (rule found_shift[of ?V k elapsed "poll_begin ev repository" ?T, OF None])
      with step True None ih show ?thesis by (simp add: add.assoc)
    qed
  qed
qed

lemma wait_for_install_found:
  assumes "repository ''name'' \<noteq> None" and "repository ''owner'' \<noteq> None"
      and "\<forall>k. listing_ok (snd (get_repositories ev k))"
  shows "fst (wait_for_install ev repository timeout k)
           = Inr (found_installed ev repository timeout k)"
  using wait_loop_found[OF assms, of timeout 0 k]
  by (simp add: wait_for_install_def found_installed_def)

lemma wait_loop_polls: "k \<le> snd (wait_loop ev repository timeout elapsed k)"
proof (induction "timeout * 1000000 - elapsed" arbitrary: elapsed k rule: less_induct)
  case less
  have ih: "k \<le> snd (wait_loop ev repository timeout el (Suc k))"
    if "elapsed < timeout * 1000000" and "elapsed < el" for el
  proof -
    have "timeout * 1000000 - el < timeout * 1000000 - elapsed"
      using that by linarith
    from less[OF this, of "Suc k"] show ?thesis by simp
  qed
  show ?case
    by (subst wait_loop.simps)
       (auto split: prod.splits sum.splits error.splits option.splits intro!: ih)
qed

lemma wait_for_install_polls:
  "0 < timeout \<Longrightarrow> k < snd (wait_for_install ev repository timeout k)"
  unfolding wait_for_install_def
  using wait_loop_polls[of "Suc k" ev repository timeout]
  by (subst wait_loop.simps)
     (auto split: prod.splits sum.splits error.splits option.splits simp: Suc_le_eq)


section \<open>The gateway timeout\<close>

lemma py_getitems_length: "py_getitems d ks = Inr vs \<Longrightarrow> length vs = length ks"
  by (induction ks arbitrary: vs) (auto split: sum.splits)

lemma log_repository_install_success_present:
  assumes "d ''name'' \<noteq> None" and "d ''owner'' \<noteq> None" and "d ''changeset_revision'' \<noteq> None"
  shows "\<exists>r. log_repository_install_success d log = Inr r \<and> r \<noteq> []"
proof -
  have a: "\<forall>k \<in> set [''name'', ''changeset_revision'']. d k \<noteq> None"
    and b: "\<forall>k \<in> set [''name'', ''owner'', ''changeset_revision'']. d k \<noteq> None"
    using assms by simp_all
  from py_getitems_present[OF a] obtain ws where
    ws: "py_getitems d [''name'', ''changeset_revision''] = Inr ws" ..
  from py_getitems_present[OF b] obtain vs where
    vs: "py_getitems d [''name'', ''owner'', ''changeset_revision''] = Inr vs" ..
  from py_getitems_length[OF vs] obtain v1 v2 v3 where "vs = [v1, v2, v3]"
    by (auto simp: length_Suc_conv)
  with ws vs show ?thesis
    unfolding log_repository_install_success_def by (cases log) simp_all
qed

text \<open>
  C4, amended. A unit whose install call is reached and raises a connection error whose
  body is a string without the duplicate-install phrase and whose message contains
  \<^verbatim>\<open>504\<close>, on a host whose listing calls raise a connection error or return entries
  with a name, an owner and a status: the pass through the loop ends without an
  exception; exactly one install call was issued for the unit and none follows it; the
  inventory is polled at least once; the skipped list is untouched; and the installed
  list is extended (the errored list untouched) if and only if, among the polls that
  begin less than 3600 seconds after the wait began, taken in order and each listing
  in order, the first entry with the unit's name and owner whose status is
  \<^verbatim>\<open>Installed\<close> or \<^verbatim>\<open>Error\<close> has the status \<^verbatim>\<open>Installed\<close>. Otherwise the errored list is
  extended and the installed list is untouched.
\<close>

theorem gateway_timeout_polls_inventory:
  assumes "log_repository_install_start (objects st repository) log = Inr ()"
      and "install_repository_revision ev repository False (st\<lparr>counter := counter st + 1\<rparr>)
             = (Inl (ConnectionError e), st1)"
      and "body e = Some b" and "\<not> sublist default_err_msg b"
      and "sublist ''504'' (message e)"
      and "\<forall>k. listing_ok (snd (get_repositories ev k))"
  shows "\<exists>st'. install_one ev log repository st = Inr st'
        \<and> install_calls st' = install_calls st1
        \<and> length (install_calls st1) = Suc (length (install_calls st))
        \<and> polls st < polls st'
        \<and> skipped_repositories st' = skipped_repositories st
        \<and> (if found_installed ev (objects st1 repository) 3600 (polls st)
           then (\<exists>added. added \<noteq> []
                   \<and> installed_repositories st' = installed_repositories st @ added)
                \<and> errored_repositories st' = errored_repositories st
           else (\<exists>added. added \<noteq> []
                   \<and> errored_repositories st' = errored_repositories st @ added)
                \<and> installed_repositories st' = installed_repositories st)"
proof -
  note s = log_repository_install_start_Inr[OF assms(1)]
  from install_repository_revision_raises[OF assms(2)] obtain label where
    st1: "st1 = st\<lparr>counter := counter st + 1,
                  objects := (objects st)(repository := (objects st repository)
                        (''tool_panel_section_label'' := None,
                         ''new_tool_panel_section_label'' \<mapsto> label)),
        install_calls := install_calls st @ [(objects st repository)
                        (''tool_panel_section_label'' := None,
                         ''new_tool_panel_section_label'' \<mapsto> label)]\<rparr>"
    by auto
  let ?d = "objects st1 repository"
  have keys: "?d ''name'' \<noteq> None" "?d ''owner'' \<noteq> None" "?d ''changeset_revision'' \<noteq> None"
    using s by (simp_all add: st1)
  have "\<forall>k \<in> set [''name'']. ?d k \<noteq> None"
    using keys by simp
  from py_getitems_present[OF this] obtain vs where "py_getitems ?d [''name''] = Inr vs" ..
  then have dbg: "log_debug log ?d [''name''] = Inr ()"
    using s(1) by (simp add: log_debug_def)
  obtain res k' where w: "wait_for_install ev ?d 3600 (polls st1) = (res, k')"
    by (cases "wait_for_install ev ?d 3600 (polls st1)")
  have p: "polls st1 = polls st" by (simp add: st1)
  from wait_for_install_found[OF keys(1,2) assms(6), of 3600 "polls st1"] w
  have res: "res = Inr (found_installed ev ?d 3600 (polls st))"
    by (simp add: p)
  from wait_for_install_polls[of 3600 "polls st1" ev ?d] w
  have k': "polls st < k'" by (simp add: p)
  from log_repository_install_success_present[OF keys, of log] obtain r where
    r: "log_repository_install_success ?d log = Inr r" "r \<noteq> []" by blast
  have one: "install_one ev log repository st =
     (if found_installed ev ?d 3600 (polls st)
      then Inr (st1\<lparr>polls := k',
                    installed_repositories := py_iadd (installed_repositories st1) r\<rparr>)
      else Inr (st1\<lparr>polls := k',
                    errored_repositories :=
                      py_iadd (errored_repositories st1)
                        (log_repository_install_error ?d (PStr b))\<rparr>))"
    using assms(1-5) dbg w res r(1) by (simp add: install_one_def Let_def)
  show ?thesis
  proof (cases "found_installed ev ?d 3600 (polls st)")
    case True
    with one k' r(2) show ?thesis
      by (simp add: st1 py_iadd_def)
  next
    case False
    with one k' show ?thesis
      by (simp add: st1 py_iadd_def log_repository_install_error_def)
  qed
qed

lemma sublist_504: "sublist ''504'' ''504 Gateway Time-out''"
  by (simp add: sublist_Cons_right)

lemma not_sublist_default_err_msg_timeout: "\<not> sublist default_err_msg ''timeout''"
proof
  assume "sublist default_err_msg ''timeout''"
  then have "length default_err_msg \<le> length ''timeout''"
    by (rule sublist_length_le)
  then show False by (simp add: default_err_msg_def)
qed

lemma objects_st_x_counter: "objects (st_x\<lparr>counter := c\<rparr>) 0 = unit_x"
  by (simp add: st_x_def heap_of_single)

lemma raises_gateway_timeout:
  assumes "objects s 0 = unit_x"
  shows "fst (install_repository_revision ev_timeout_installed 0 False s)
           = Inl (ConnectionError gateway_timeout)"
    and "fst (install_repository_revision ev_timeout_mixed 0 False s)
           = Inl (ConnectionError gateway_timeout)"
  using assms
  by (simp_all add: install_repository_revision_def ev_ok_def ev_timeout_installed_def
        ev_timeout_mixed_def unit_x_def Let_def)

lemma listings_ok:
  "\<forall>k. listing_ok (snd (get_repositories ev_timeout_installed k))"
  "\<forall>k. listing_ok (snd (get_repositories ev_timeout_mixed k))"
  by (simp_all add: ev_timeout_installed_def ev_timeout_mixed_def ev_ok_def listing_ok_def
        entry_ok_def listed_installed_def listed_error_def)

lemma name_owner_after_call:
  assumes "objects s 0 = unit_x"
  shows "py_get (objects (snd (install_repository_revision ev 0 False s)) 0) ''name'' = PStr ''x''"
    and "py_get (objects (snd (install_repository_revision ev 0 False s)) 0) ''owner'' = PStr ''o''"
  using assms
  by (simp_all add: install_repository_revision_def unit_x_def Let_def
        py_get_def split: sum.splits response.splits)

lemma listed_installed_fields:
  "py_get listed_installed ''name'' = PStr ''x''"
  "py_get listed_installed ''owner'' = PStr ''o''"
  "py_get listed_installed ''status'' = PStr ''Installed''"
  by (simp_all add: listed_installed_def py_get_def)

lemma found_installed_example:
  assumes "objects s 0 = unit_x"
  shows "found_installed ev_timeout_installed
           (objects (snd (install_repository_revision ev_timeout_installed 0 False s)) 0) 3600 k"
  unfolding found_installed_def
  by (rule exI[of _ 0])
     (simp add: poll_verdict_def name_owner_after_call[OF assms]
        ev_timeout_installed_def[THEN arg_cong, of get_repositories]
        ev_ok_def listed_installed_fields)

theorem gateway_timeout_polls_inventory_witness:
  "log_repository_install_start (objects st_x 0) True = Inr ()
   \<and> fst (install_repository_revision ev_timeout_installed 0 False
            (st_x\<lparr>counter := counter st_x + 1\<rparr>)) = Inl (ConnectionError gateway_timeout)
   \<and> body gateway_timeout = Some ''timeout''
   \<and> \<not> sublist default_err_msg ''timeout''
   \<and> sublist ''504'' (message gateway_timeout)
   \<and> found_installed ev_timeout_installed
       (objects (snd (install_repository_revision ev_timeout_installed 0 False
                        (st_x\<lparr>counter := counter st_x + 1\<rparr>))) 0) 3600 (polls st_x)
   \<and> (\<exists>st'. install_one ev_timeout_installed True 0 st_x = Inr st'
          \<and> length (install_calls st') = 1
          \<and> 0 < polls st'
          \<and> installed_repositories st' \<noteq> []
          \<and> errored_repositories st' = []
          \<and> skipped_repositories st' = [])"
proof -
  let ?s = "st_x\<lparr>counter := counter st_x + 1\<rparr>"
  let ?call = "install_repository_revision ev_timeout_installed 0 False ?s"
  note o = objects_st_x_counter[of "counter st_x + 1"]
  have raised: "fst ?call = Inl (ConnectionError gateway_timeout)"
    by (rule raises_gateway_timeout(1)[OF o])
  then have call: "?call = (Inl (ConnectionError gateway_timeout), snd ?call)"
    by (metis prod.collapse)
  have b: "body gateway_timeout = Some ''timeout''"
    and m: "sublist ''504'' (message gateway_timeout)"
    using sublist_504 by (simp_all add: gateway_timeout_def)
  have found: "found_installed ev_timeout_installed (objects (snd ?call) 0) 3600 (polls st_x)"
    by (rule found_installed_example[OF o])
  have st: "installed_repositories st_x = []" "skipped_repositories st_x = []"
    "errored_repositories st_x = []" "install_calls st_x = []" "polls st_x = 0"
    by (simp_all add: st_x_def)
  from gateway_timeout_polls_inventory
         [OF log_start_st_x call b not_sublist_default_err_msg_timeout m listings_ok(1)]
       found
  have run: "\<exists>st'. install_one ev_timeout_installed True 0 st_x = Inr st'
          \<and> length (install_calls st') = 1
          \<and> 0 < polls st'
          \<and> installed_repositories st' \<noteq> []
          \<and> errored_repositories st' = []
          \<and> skipped_repositories st' = []"
    by (auto simp: st)
  show ?thesis
    by (intro conjI)
       (fact log_start_st_x raised b not_sublist_default_err_msg_timeout m found run)+
qed

lemma wait_mixed:
  "repository ''name'' = Some (PStr ''x'') \<Longrightarrow> repository ''owner'' = Some (PStr ''o'') \<Longrightarrow>
   wait_for_install ev_timeout_mixed repository 3600 0 = (Inr False, Suc 0)"
  unfolding wait_for_install_def
  by (subst wait_loop.simps)
     (simp add: ev_timeout_mixed_def ev_ok_def listed_error_def py_getitem_def)

text \<open>
  C4, as it is stated, fails on the code. A unit's install call raises a connection
  error whose message contains \<^verbatim>\<open>504\<close>. (1) The first listing holds an entry of the unit
  with status \<^verbatim>\<open>Error\<close> and then one with status \<^verbatim>\<open>Installed\<close>: an entry with equal name
  and owner is \<^verbatim>\<open>Installed\<close> before the timeout, but the installed list stays empty
  and the errored list is extended. (2) The body of the error contains the
  duplicate-install phrase: nothing is polled and nothing is recorded. (3) The error
  has no body: the run ends with a \<^verbatim>\<open>TypeError\<close>.
\<close>

theorem gateway_timeout_counterexample:
  "fst (install_repository_revision ev_timeout_mixed 0 False
          (st_x\<lparr>counter := counter st_x + 1\<rparr>)) = Inl (ConnectionError gateway_timeout)
   \<and> sublist ''504'' (message gateway_timeout)
   \<and> get_repositories ev_timeout_mixed 0 = (0, Inr [listed_error, listed_installed])
   \<and> py_get listed_installed ''name'' = py_get unit_x ''name''
   \<and> py_get listed_installed ''owner'' = py_get unit_x ''owner''
   \<and> py_get listed_installed ''status'' = PStr ''Installed''
   \<and> map_sum id (\<lambda>s. (installed_repositories s, errored_repositories s))
         (install_one ev_timeout_mixed True 0 st_x)
       = Inr ([], [PStr ''name'', PStr ''owner'', PStr ''revision'', PStr ''error''])
   \<and> map_sum id (\<lambda>s. (installed_repositories s, errored_repositories s, polls s))
         (install_one ev_timeout_duplicate True 0 st_x) = Inr ([], [], 0)
   \<and> install_one ev_timeout_no_body True 0 st_x = Inl TypeError"
proof -
  have raised: "fst (install_repository_revision ev_timeout_mixed 0 False
          (st_x\<lparr>counter := counter st_x + 1\<rparr>)) = Inl (ConnectionError gateway_timeout)"
    by (rule raises_gateway_timeout(2)[OF objects_st_x_counter])
  have m: "sublist ''504'' (message gateway_timeout)"
    using sublist_504 by (simp add: gateway_timeout_def)
  have listing: "get_repositories ev_timeout_mixed 0 = (0, Inr [listed_error, listed_installed])"
    by (simp add: ev_timeout_mixed_def ev_ok_def)
  have same: "py_get listed_installed ''name'' = py_get unit_x ''name''"
    "py_get listed_installed ''owner'' = py_get unit_x ''owner''"
    "py_get listed_installed ''status'' = PStr ''Installed''"
    by (simp_all add: listed_installed_def unit_x_def py_get_def)
  have mixed: "map_sum id (\<lambda>s. (installed_repositories s, errored_repositories s))
       (install_one ev_timeout_mixed True 0 st_x)
         = Inr ([], [PStr ''name'', PStr ''owner'', PStr ''revision'', PStr ''error''])"
    using not_sublist_default_err_msg_timeout sublist_504
    by (simp add: install_one_def Let_def log_repository_install_start_def
          install_repository_revision_def st_x_def heap_of_single unit_x_def py_getitem_def
          ev_timeout_mixed_def[THEN arg_cong, of shed_install] ev_ok_def gateway_timeout_def
          log_debug_def wait_mixed py_iadd_def log_repository_install_error_def)
  have dup: "map_sum id (\<lambda>s. (installed_repositories s, errored_repositories s, polls s))
         (install_one ev_timeout_duplicate True 0 st_x) = Inr ([], [], 0)"
    by (simp add: install_one_def Let_def log_repository_install_start_def
          install_repository_revision_def st_x_def heap_of_single unit_x_def py_getitem_def
          ev_timeout_duplicate_def ev_timeout_installed_def ev_ok_def log_debug_def)
  have nobody: "install_one ev_timeout_no_body True 0 st_x = Inl TypeError"
    by (simp add: install_one_def Let_def log_repository_install_start_def
          install_repository_revision_def st_x_def heap_of_single unit_x_def py_getitem_def
          ev_timeout_no_body_def ev_timeout_installed_def ev_ok_def)
  show ?thesis
    by (intro conjI) (fact raised m listing same mixed dup nobody)+
qed


section \<open>The end of a run\<close>

text \<open>
  The field-name list given to \<^verbatim>\<open>namedtuple\<close> at the end of \<open>install_tools\<close> is one string
  with commas in it, which is no identifier: every run that reaches the end raises
  there, so \<open>install_tools\<close> returns no report on any input.
\<close>

lemma report_phase_raises: "\<exists>e. report_phase log st = Inl e"
  by (simp add: report_phase_def namedtuple_InstallResults split: sum.splits)

lemma install_tools_raises:
  "\<exists>e. install_tools ev log force_latest_revision default_toolshed h tools = Inl e"
  using report_phase_raises
  by (auto simp: install_tools_def split: sum.splits prod.splits)

end
